theory Spec2Isabelle
  imports Complex_Main "HOL-Library.Log_Nat" "HOL-Library.AList"
begin

section \<open>Python values used by \<open>config.py\<close>\<close>

text \<open>
  The exceptions the arithmetic and the dictionary reads of the module can raise.
  A computation that may raise has the type \<open>error + 'a\<close>, with \<open>Inl\<close> the exception.
\<close>

datatype error = KeyError | OverflowError | ZeroDivisionError | ValueError

definition bind_e :: "error + 'a \<Rightarrow> ('a \<Rightarrow> error + 'b) \<Rightarrow> error + 'b" where
  "bind_e m f = (case m of Inl e \<Rightarrow> Inl e | Inr x \<Rightarrow> f x)"

subsection \<open>Floats: IEEE 754 binary64, the value kept as an exact rational\<close>

text \<open>
  A Python \<open>float\<close> is a binary64 number. A finite one is represented by the rational it
  denotes, so every operation is the exact operation followed by rounding to the nearest
  representable number, ties to the even significand. The sign of a zero is not kept:
  neither \<open>int()\<close> nor \<open>==\<close> sees it.
\<close>

datatype pyfloat = Finite rat | PosInf | NegInf | NaN

text \<open>\<open>ilog2 x\<close> is the exponent \<open>e\<close> with \<open>2^e \<le> |x| < 2^(e+1)\<close>, for \<open>x \<noteq> 0\<close>.\<close>

definition ilog2 :: "rat \<Rightarrow> int" where
  "ilog2 x = (case quotient_of \<bar>x\<bar> of (p, q) \<Rightarrow>
      (let e = bitlen p - bitlen q in if 2 powi e \<le> \<bar>x\<bar> then e else e - 1))"

definition round_half_even :: "rat \<Rightarrow> int" where
  "round_half_even m = (let f = \<lfloor>m\<rfloor>; r = m - of_int f in
      if r < 1 / 2 then f else if 1 / 2 < r then f + 1 else if even f then f else f + 1)"

text \<open>
  Rounding to 53 significant bits; below \<open>2^-1022\<close> the spacing stays \<open>2^-1074\<close>
  (subnormal numbers).
\<close>

definition round_binary64 :: "rat \<Rightarrow> rat" where
  "round_binary64 x = (if x = 0 then 0 else
      (let e = max (ilog2 x) (- 1022); q = 2 powi (e - 52)
       in of_int (round_half_even (x / q)) * q))"

text \<open>The result of a float operation: a rounded value of magnitude \<open>2^1024\<close> is an infinity.\<close>

definition deliver :: "rat \<Rightarrow> pyfloat" where
  "deliver x = (let r = round_binary64 x in
      if 2 ^ 1024 \<le> r then PosInf else if r \<le> - (2 ^ 1024) then NegInf else Finite r)"

text \<open>A float literal of the source, such as \<open>0.05\<close>, is the float nearest to the decimal.\<close>

definition float_literal :: "rat \<Rightarrow> pyfloat" where
  "float_literal q = deliver q"

text \<open>
  Converting an \<open>int\<close> to \<open>float\<close>, as \<open>int * float\<close> and \<open>float / int\<close> do with their
  \<open>int\<close> operand: Python raises \<open>OverflowError\<close> (int too large to convert to float)
  instead of producing an infinity.
\<close>

definition float_of_int :: "int \<Rightarrow> error + pyfloat" where
  "float_of_int n = (let r = round_binary64 (of_int n) in
      if 2 ^ 1024 \<le> \<bar>r\<bar> then Inl OverflowError else Inr (Finite r))"

fun float_mul :: "pyfloat \<Rightarrow> pyfloat \<Rightarrow> pyfloat" where
  "float_mul (Finite a) (Finite b) = deliver (a * b)"
| "float_mul NaN y = NaN"
| "float_mul x NaN = NaN"
| "float_mul (Finite a) PosInf = (if a = 0 then NaN else if 0 < a then PosInf else NegInf)"
| "float_mul (Finite a) NegInf = (if a = 0 then NaN else if 0 < a then NegInf else PosInf)"
| "float_mul PosInf (Finite b) = (if b = 0 then NaN else if 0 < b then PosInf else NegInf)"
| "float_mul NegInf (Finite b) = (if b = 0 then NaN else if 0 < b then NegInf else PosInf)"
| "float_mul PosInf PosInf = PosInf"
| "float_mul PosInf NegInf = NegInf"
| "float_mul NegInf PosInf = NegInf"
| "float_mul NegInf NegInf = PosInf"

declare float_mul.simps [simp del]

text \<open>Float division raises \<open>ZeroDivisionError\<close> on a zero divisor, whatever the dividend.\<close>

fun float_truediv :: "pyfloat \<Rightarrow> pyfloat \<Rightarrow> error + pyfloat" where
  "float_truediv x (Finite b) =
     (if b = 0 then Inl ZeroDivisionError
      else case x of
             Finite a \<Rightarrow> Inr (deliver (a / b))
           | PosInf \<Rightarrow> Inr (if 0 < b then PosInf else NegInf)
           | NegInf \<Rightarrow> Inr (if 0 < b then NegInf else PosInf)
           | NaN \<Rightarrow> Inr NaN)"
| "float_truediv x NaN = Inr NaN"
| "float_truediv (Finite a) y = Inr (Finite 0)"
| "float_truediv x y = Inr NaN"

declare float_truediv.simps [simp del]

text \<open>
  \<open>int(x)\<close> truncates toward zero; it raises \<open>OverflowError\<close> on an infinity and
  \<open>ValueError\<close> on a NaN.
\<close>

definition int_of_float :: "pyfloat \<Rightarrow> error + int" where
  "int_of_float x = (case x of
       Finite r \<Rightarrow> Inr (if 0 \<le> r then \<lfloor>r\<rfloor> else \<lceil>r\<rceil>)
     | PosInf \<Rightarrow> Inl OverflowError
     | NegInf \<Rightarrow> Inl OverflowError
     | NaN \<Rightarrow> Inl ValueError)"

subsection \<open>Expressions that may raise\<close>

text \<open>
  \<open>n * w\<close> with \<open>n\<close> an \<open>int\<close> variable and \<open>w\<close> a float expression: \<open>w\<close> is evaluated,
  then \<open>n\<close> is converted, then the floats are multiplied.
\<close>

definition int_times_float :: "int \<Rightarrow> error + pyfloat \<Rightarrow> error + pyfloat" where
  "int_times_float n w = bind_e w (\<lambda>y. bind_e (float_of_int n) (\<lambda>x. Inr (float_mul x y)))"

text \<open>\<open>w / n\<close> with \<open>w\<close> a float expression and \<open>n\<close> an \<open>int\<close> variable.\<close>

definition float_over_int :: "error + pyfloat \<Rightarrow> int \<Rightarrow> error + pyfloat" where
  "float_over_int w n = bind_e w (\<lambda>x. bind_e (float_of_int n) (\<lambda>y. float_truediv x y))"

definition py_int :: "error + pyfloat \<Rightarrow> error + int" where
  "py_int x = bind_e x int_of_float"

subsection \<open>Dictionaries\<close>

text \<open>
  A \<open>dict\<close> keeps its keys in insertion order: an association list with distinct keys.
  \<open>d[k] = v\<close> replaces the value of a key that is present and appends a new key
  (\<open>AList.update\<close>); \<open>d[k]\<close> raises \<open>KeyError\<close> on a missing key.
\<close>

datatype pyval = PInt int | PFloat pyfloat | PBool bool

type_synonym section_plan = "(string \<times> pyval) list"

type_synonym episode_plan = "(string \<times> section_plan) list"

definition getitem :: "(string \<times> 'v) list \<Rightarrow> string \<Rightarrow> error + 'v" where
  "getitem d k = (case map_of d k of None \<Rightarrow> Inl KeyError | Some v \<Rightarrow> Inr v)"

definition setitem :: "(string \<times> 'v) list \<Rightarrow> string \<Rightarrow> 'v \<Rightarrow> (string \<times> 'v) list" where
  "setitem d k v = AList.update k v d"

text \<open>
  A dictionary display \<open>{k1: e1, k2: e2, ...}\<close>: the items are evaluated and stored in
  order, and the first one that raises ends the evaluation.
\<close>

fun dict_build :: "(string \<times> 'v) list \<Rightarrow> (string \<times> (error + 'v)) list \<Rightarrow> error + (string \<times> 'v) list" where
  "dict_build d [] = Inr d"
| "dict_build d ((k, e) # items) = bind_e e (\<lambda>v. dict_build (setitem d k v) items)"

definition dict_display :: "(string \<times> (error + 'v)) list \<Rightarrow> error + (string \<times> 'v) list" where
  "dict_display items = dict_build [] items"

definition int_val :: "error + int \<Rightarrow> error + pyval" where
  "int_val e = bind_e e (\<lambda>i. Inr (PInt i))"

definition float_val :: "error + pyfloat \<Rightarrow> error + pyval" where
  "float_val e = bind_e e (\<lambda>x. Inr (PFloat x))"

definition bool_val :: "bool \<Rightarrow> error + pyval" where
  "bool_val b = Inr (PBool b)"

subsection \<open>\<open>str\<close> of an integer, for the f-string \<open>f"main_story_{i}"\<close>\<close>

fun digits :: "nat \<Rightarrow> string" where
  "digits n = (if n < 10 then [char_of (48 + n)]
               else digits (n div 10) @ [char_of (48 + n mod 10)])"

declare digits.simps [simp del]

definition str_int :: "int \<Rightarrow> string" where
  "str_int i = (if i < 0 then CHR ''-'' # digits (nat (- i)) else digits (nat i))"

section \<open>The module\<close>

subsection \<open>Lines 26 to 39: the duration read from the environment, clamped and rounded\<close>

text \<open>
  The value of the module variable \<open>PODCAST_DURATION_MINUTES\<close> after line 39, as a
  function of the integer that line 26 parsed from the environment.
\<close>

definition PODCAST_DURATION_MINUTES :: "int \<Rightarrow> int" where
  "PODCAST_DURATION_MINUTES parsed =
     (if parsed < 15 then 15
      else if parsed > 45 then 45
      else if parsed \<notin> set [15, 30, 45] then
        (if parsed < 22 then 15
         else if parsed < 37 then 30
         else 45)
      else parsed)"

subsection \<open>Lines 42 to 51: the weight table\<close>

text \<open>
  The module's global variables that \<open>calculate_section_allocation\<close> reads. The record is
  extensible: every other global of the module lives in its \<open>more\<close> part.
\<close>

record globals =
  BASE_SECTION_WEIGHTS :: "(string \<times> pyfloat) list"

definition config_globals :: globals where
  "config_globals = \<lparr>BASE_SECTION_WEIGHTS = [
      (''intro'', float_literal (5 / 100)),
      (''main_stories'', float_literal (65 / 100)),
      (''tech_spotlight'', float_literal (15 / 100)),
      (''listener_questions'', float_literal (8 / 100)),
      (''deep_dive'', float_literal (10 / 100)),
      (''expert_interview'', float_literal (10 / 100)),
      (''outro'', float_literal (5 / 100)),
      (''transitions'', float_literal (7 / 100))]\<rparr>"

subsection \<open>Lines 54 to 133: \<open>calculate_section_allocation\<close>\<close>

text \<open>
  The body statement by statement: each statement that may raise is a \<open>bind_e\<close>, so the
  first exception ends the call. The first argument is the module state the call reads;
  \<open>BASE_SECTION_WEIGHTS["intro"]\<close> is \<open>getitem (BASE_SECTION_WEIGHTS g) ''intro''\<close>. The
  \<open>for\<close> loop over \<open>range(1, num_main_stories + 1)\<close> is a left fold over \<open>[1..num_main_stories]\<close>.
\<close>

definition calculate_section_allocation :: "'a globals_scheme \<Rightarrow> int \<Rightarrow> error + episode_plan" where
  "calculate_section_allocation g duration_minutes =
    (let total_seconds = duration_minutes * 60;
         words_per_minute = 150;
         target_word_count = duration_minutes * words_per_minute;
         num_main_stories =
           (if duration_minutes = 15 then 2
            else if duration_minutes = 30 then 3
            else 4)
     in
     bind_e (dict_display [
       (''intro'', dict_display [
          (''duration_seconds'', int_val (py_int (int_times_float total_seconds
              (getitem (BASE_SECTION_WEIGHTS g) ''intro'')))),
          (''weight'', float_val (getitem (BASE_SECTION_WEIGHTS g) ''intro'')),
          (''word_count_target'', int_val (py_int (int_times_float target_word_count
              (getitem (BASE_SECTION_WEIGHTS g) ''intro''))))]),
       (''outro'', dict_display [
          (''duration_seconds'', int_val (py_int (int_times_float total_seconds
              (getitem (BASE_SECTION_WEIGHTS g) ''outro'')))),
          (''weight'', float_val (getitem (BASE_SECTION_WEIGHTS g) ''outro'')),
          (''word_count_target'', int_val (py_int (int_times_float target_word_count
              (getitem (BASE_SECTION_WEIGHTS g) ''outro''))))]),
       (''tech_spotlight'', dict_display [
          (''duration_seconds'', int_val (py_int (int_times_float total_seconds
              (getitem (BASE_SECTION_WEIGHTS g) ''tech_spotlight'')))),
          (''weight'', float_val (getitem (BASE_SECTION_WEIGHTS g) ''tech_spotlight'')),
          (''word_count_target'', int_val (py_int (int_times_float target_word_count
              (getitem (BASE_SECTION_WEIGHTS g) ''tech_spotlight''))))]),
       (''listener_questions'', dict_display [
          (''duration_seconds'', int_val (py_int (int_times_float total_seconds
              (getitem (BASE_SECTION_WEIGHTS g) ''listener_questions'')))),
          (''weight'', float_val (getitem (BASE_SECTION_WEIGHTS g) ''listener_questions'')),
          (''word_count_target'', int_val (py_int (int_times_float target_word_count
              (getitem (BASE_SECTION_WEIGHTS g) ''listener_questions'')))),
          (''enabled'', bool_val True)]),
       (''transitions'', dict_display [
          (''duration_seconds'', int_val (py_int (int_times_float total_seconds
              (getitem (BASE_SECTION_WEIGHTS g) ''transitions'')))),
          (''weight'', float_val (getitem (BASE_SECTION_WEIGHTS g) ''transitions''))])])
     (\<lambda>sections.
     bind_e (float_over_int (getitem (BASE_SECTION_WEIGHTS g) ''main_stories'') num_main_stories)
     (\<lambda>main_story_weight.
     bind_e (py_int (int_times_float total_seconds (Inr main_story_weight)))
     (\<lambda>main_story_duration.
     bind_e (py_int (int_times_float target_word_count (Inr main_story_weight)))
     (\<lambda>main_story_word_count.
     let sections = foldl (\<lambda>sections i.
           setitem sections (''main_story_'' @ str_int i) [
             (''duration_seconds'', PInt main_story_duration),
             (''weight'', PFloat main_story_weight),
             (''word_count_target'', PInt main_story_word_count)])
           sections [1..num_main_stories]
     in
     bind_e (dict_display [
          (''duration_seconds'', int_val (py_int (int_times_float total_seconds
              (getitem (BASE_SECTION_WEIGHTS g) ''deep_dive'')))),
          (''weight'', float_val (getitem (BASE_SECTION_WEIGHTS g) ''deep_dive'')),
          (''word_count_target'', int_val (py_int (int_times_float target_word_count
              (getitem (BASE_SECTION_WEIGHTS g) ''deep_dive'')))),
          (''enabled'', bool_val False)])
     (\<lambda>deep_dive.
     let sections = setitem sections ''deep_dive'' deep_dive
     in
     bind_e (dict_display [
          (''duration_seconds'', int_val (py_int (int_times_float total_seconds
              (getitem (BASE_SECTION_WEIGHTS g) ''expert_interview'')))),
          (''weight'', float_val (getitem (BASE_SECTION_WEIGHTS g) ''expert_interview'')),
          (''word_count_target'', int_val (py_int (int_times_float target_word_count
              (getitem (BASE_SECTION_WEIGHTS g) ''expert_interview'')))),
          (''enabled'', bool_val False)])
     (\<lambda>expert_interview.
     Inr (setitem sections ''expert_interview'' expert_interview))))))))"

subsection \<open>Line 141: the number of main stories recorded in \<open>PODCAST_CONFIG\<close>\<close>

definition num_main_stories :: "int \<Rightarrow> int" where
  "num_main_stories duration = (if duration = 15 then 2 else (if duration = 30 then 3 else 4))"

subsection \<open>The same function on a store of objects\<close>

text \<open>
  In Python a \<open>dict\<close> is an object with an identity: a global name is bound to an
  address, \<open>d[k] = v\<close> changes the object at the address of \<open>d\<close>, and a dictionary display
  creates a new object. To state what a call reads and writes, the function is modelled a
  second time, on a store: a list of objects (the address of an object is its index) and
  the bindings of the module's global names. The three kinds of dictionaries that occur
  are the weight table (floats), a section record (values) and the plan (references to
  section records). An action takes the state to a result and the next state; what it
  allocated before an exception stays allocated.
\<close>

datatype pyobj =
    FloatDict "(string \<times> pyfloat) list"
  | ValueDict section_plan
  | RefDict "(string \<times> nat) list"

record pystate =
  objects :: "pyobj list"
  module_vars :: "(string \<times> nat) list"

datatype store_error = Raised error | NameError | TypeError

type_synonym 'a action = "pystate \<Rightarrow> (store_error + 'a) \<times> pystate"

definition unit_s :: "'a \<Rightarrow> 'a action" where
  "unit_s x s = (Inr x, s)"

definition bind_s :: "'a action \<Rightarrow> ('a \<Rightarrow> 'b action) \<Rightarrow> 'b action" where
  "bind_s m f s = (case m s of (Inl e, s') \<Rightarrow> (Inl e, s') | (Inr x, s') \<Rightarrow> f x s')"

definition pure_s :: "error + 'a \<Rightarrow> 'a action" where
  "pure_s r s = (case r of Inl e \<Rightarrow> (Inl (Raised e), s) | Inr x \<Rightarrow> (Inr x, s))"

text \<open>A dictionary display creates an object at the next free address.\<close>

definition allocate :: "pyobj \<Rightarrow> nat action" where
  "allocate obj s = (Inr (length (objects s)), s\<lparr>objects := objects s @ [obj]\<rparr>)"

text \<open>
  \<open>NAME[k]\<close> for a global \<open>NAME\<close>: the name is looked up in the module (\<open>NameError\<close> when
  unbound), the object it is bound to is read from the store and subscripted (\<open>KeyError\<close>
  on a missing key). The value is used as a float, so an object that is not a dict of
  floats is a \<open>TypeError\<close> here.
\<close>

definition global_subscript :: "string \<Rightarrow> string \<Rightarrow> pyfloat action" where
  "global_subscript name k s =
     (case map_of (module_vars s) name of
        None \<Rightarrow> (Inl NameError, s)
      | Some a \<Rightarrow>
          if a < length (objects s) then
            (case objects s ! a of
               FloatDict d \<Rightarrow> pure_s (getitem d k) s
             | ValueDict d \<Rightarrow> (Inl TypeError, s)
             | RefDict d \<Rightarrow> (Inl TypeError, s))
          else (Inl NameError, s))"

text \<open>\<open>d[k] = v\<close> with \<open>d\<close> a local bound to the plan object at address \<open>a\<close>: the object changes in place.\<close>

definition store_subscript :: "nat \<Rightarrow> string \<Rightarrow> nat \<Rightarrow> unit action" where
  "store_subscript a k b s =
     (if a < length (objects s) then
        (case objects s ! a of
           RefDict d \<Rightarrow> (Inr (), s\<lparr>objects := (objects s)[a := RefDict (setitem d k b)]\<rparr>)
         | FloatDict d \<Rightarrow> (Inl TypeError, s)
         | ValueDict d \<Rightarrow> (Inl TypeError, s))
      else (Inl TypeError, s))"

text \<open>
  The items of a dictionary display are evaluated in order; then the object is created.
\<close>

fun eval_items :: "(string \<times> 'v action) list \<Rightarrow> (string \<times> 'v) list action" where
  "eval_items [] = unit_s []"
| "eval_items ((k, m) # items) =
     bind_s m (\<lambda>v. bind_s (eval_items items) (\<lambda>vs. unit_s ((k, v) # vs)))"

definition dict_of :: "(string \<times> 'v) list \<Rightarrow> (string \<times> 'v) list" where
  "dict_of kvs = foldl (\<lambda>d (k, v). setitem d k v) [] kvs"

definition new_section :: "(string \<times> pyval action) list \<Rightarrow> nat action" where
  "new_section items = bind_s (eval_items items) (\<lambda>kvs. allocate (ValueDict (dict_of kvs)))"

definition new_sections :: "(string \<times> nat action) list \<Rightarrow> nat action" where
  "new_sections items = bind_s (eval_items items) (\<lambda>kvs. allocate (RefDict (dict_of kvs)))"

fun for_each :: "'a list \<Rightarrow> ('a \<Rightarrow> unit action) \<Rightarrow> unit action" where
  "for_each [] body = unit_s ()"
| "for_each (x # xs) body = bind_s (body x) (\<lambda>u. for_each xs body)"

text \<open>
  The expressions \<open>int(n * BASE_SECTION_WEIGHTS[k])\<close> and \<open>BASE_SECTION_WEIGHTS[k]\<close>, each
  reading the global at the moment it is evaluated.
\<close>

definition int_of_product :: "int \<Rightarrow> string \<Rightarrow> pyval action" where
  "int_of_product n k =
     bind_s (global_subscript ''BASE_SECTION_WEIGHTS'' k)
       (\<lambda>w. pure_s (int_val (py_int (int_times_float n (Inr w)))))"

definition weight_of :: "string \<Rightarrow> pyval action" where
  "weight_of k =
     bind_s (global_subscript ''BASE_SECTION_WEIGHTS'' k) (\<lambda>w. unit_s (PFloat w))"

text \<open>
  The body, statement by statement as before; \<open>sections\<close> is now the address of the plan
  object, and each assignment \<open>sections[...] = {...}\<close> first creates the record and then
  stores its address into the plan object.
\<close>

definition exec_calculate_section_allocation :: "int \<Rightarrow> nat action" where
  "exec_calculate_section_allocation duration_minutes =
    (let total_seconds = duration_minutes * 60;
         words_per_minute = 150;
         target_word_count = duration_minutes * words_per_minute;
         num_main_stories =
           (if duration_minutes = 15 then 2
            else if duration_minutes = 30 then 3
            else 4)
     in
     bind_s (new_sections [
       (''intro'', new_section [
          (''duration_seconds'', int_of_product total_seconds ''intro''),
          (''weight'', weight_of ''intro''),
          (''word_count_target'', int_of_product target_word_count ''intro'')]),
       (''outro'', new_section [
          (''duration_seconds'', int_of_product total_seconds ''outro''),
          (''weight'', weight_of ''outro''),
          (''word_count_target'', int_of_product target_word_count ''outro'')]),
       (''tech_spotlight'', new_section [
          (''duration_seconds'', int_of_product total_seconds ''tech_spotlight''),
          (''weight'', weight_of ''tech_spotlight''),
          (''word_count_target'', int_of_product target_word_count ''tech_spotlight'')]),
       (''listener_questions'', new_section [
          (''duration_seconds'', int_of_product total_seconds ''listener_questions''),
          (''weight'', weight_of ''listener_questions''),
          (''word_count_target'', int_of_product target_word_count ''listener_questions''),
          (''enabled'', unit_s (PBool True))]),
       (''transitions'', new_section [
          (''duration_seconds'', int_of_product total_seconds ''transitions''),
          (''weight'', weight_of ''transitions'')])])
     (\<lambda>sections.
     bind_s (bind_s (global_subscript ''BASE_SECTION_WEIGHTS'' ''main_stories'')
               (\<lambda>w. pure_s (float_over_int (Inr w) num_main_stories)))
     (\<lambda>main_story_weight.
     bind_s (pure_s (py_int (int_times_float total_seconds (Inr main_story_weight))))
     (\<lambda>main_story_duration.
     bind_s (pure_s (py_int (int_times_float target_word_count (Inr main_story_weight))))
     (\<lambda>main_story_word_count.
     bind_s (for_each [1..num_main_stories] (\<lambda>i.
        bind_s (new_section [
             (''duration_seconds'', unit_s (PInt main_story_duration)),
             (''weight'', unit_s (PFloat main_story_weight)),
             (''word_count_target'', unit_s (PInt main_story_word_count))])
          (\<lambda>story. store_subscript sections (''main_story_'' @ str_int i) story)))
     (\<lambda>u.
     bind_s (new_section [
          (''duration_seconds'', int_of_product total_seconds ''deep_dive''),
          (''weight'', weight_of ''deep_dive''),
          (''word_count_target'', int_of_product target_word_count ''deep_dive''),
          (''enabled'', unit_s (PBool False))])
     (\<lambda>deep_dive.
     bind_s (store_subscript sections ''deep_dive'' deep_dive)
     (\<lambda>u.
     bind_s (new_section [
          (''duration_seconds'', int_of_product total_seconds ''expert_interview''),
          (''weight'', weight_of ''expert_interview''),
          (''word_count_target'', int_of_product target_word_count ''expert_interview''),
          (''enabled'', unit_s (PBool False))])
     (\<lambda>expert_interview.
     bind_s (store_subscript sections ''expert_interview'' expert_interview)
     (\<lambda>u. unit_s sections))))))))))"

text \<open>A sequence of calls, each starting in the state the previous one left.\<close>

fun exec_calls :: "int list \<Rightarrow> pystate \<Rightarrow> (store_error + nat) list \<times> pystate" where
  "exec_calls [] s = ([], s)"
| "exec_calls (d # ds) s =
     (case exec_calculate_section_allocation d s of
        (r, s') \<Rightarrow> (case exec_calls ds s' of (rs, s'') \<Rightarrow> (r # rs, s'')))"


section \<open>Vocabulary of the properties\<close>

text \<open>\<open>plan[s][f]\<close> on a returned plan, \<open>None\<close> when the section or the field is missing.\<close>

definition field :: "episode_plan \<Rightarrow> string \<Rightarrow> string \<Rightarrow> pyval option" where
  "field plan s f = (case map_of plan s of None \<Rightarrow> None | Some sec \<Rightarrow> map_of sec f)"

text \<open>The same on the result of a call, \<open>None\<close> also when the call raised.\<close>

definition item :: "error + episode_plan \<Rightarrow> string \<Rightarrow> string \<Rightarrow> pyval option" where
  "item r s f = (case r of Inl e \<Rightarrow> None | Inr plan \<Rightarrow> field plan s f)"

text \<open>The keys of a plan that start with \<open>main_story_\<close>, in the order of the dictionary.\<close>

definition main_story_keys :: "episode_plan \<Rightarrow> string list" where
  "main_story_keys plan = filter (\<lambda>k. take 11 k = ''main_story_'') (map fst plan)"

text \<open>The sum of the \<open>duration_seconds\<close> fields over all sections of the plan of a call.\<close>

definition section_seconds :: "section_plan \<Rightarrow> int" where
  "section_seconds sec = (case map_of sec ''duration_seconds'' of Some (PInt n) \<Rightarrow> n | _ \<Rightarrow> 0)"

definition allocated_seconds :: "error + episode_plan \<Rightarrow> int option" where
  "allocated_seconds r =
     (case r of Inl e \<Rightarrow> None | Inr plan \<Rightarrow> Some (sum_list (map (\<lambda>(k, sec). section_seconds sec) plan)))"

text \<open>
  The sections that carry a \<open>word_count_target\<close> in the source, and the weights of lines
  43 to 50 read as the decimal numbers they are written as (the floats of the table are
  the nearest binary64 numbers).
\<close>

definition content_sections :: "string list" where
  "content_sections = [''intro'', ''outro'', ''tech_spotlight'', ''listener_questions'',
     ''deep_dive'', ''expert_interview'']"

definition decimal_weights :: "(string \<times> rat) list" where
  "decimal_weights = [
      (''intro'', 5 / 100),
      (''main_stories'', 65 / 100),
      (''tech_spotlight'', 15 / 100),
      (''listener_questions'', 8 / 100),
      (''deep_dive'', 10 / 100),
      (''expert_interview'', 10 / 100),
      (''outro'', 5 / 100),
      (''transitions'', 7 / 100)]"

text \<open>
  The largest magnitude an \<open>int\<close> may have to convert to a float: from
  \<open>2^1024 - 2^970\<close> on, rounding reaches \<open>2^1024\<close>.
\<close>

definition float_int_limit :: int where
  "float_int_limit = 2 ^ 1024 - 2 ^ 970"

text \<open>
  Reading a plan back from the store: the dictionary at an address with every reference
  replaced by the record it points to; \<open>outcome\<close> is the value a call returned or the
  exception it raised, as the value-level function gives them.
\<close>

definition plan_at :: "pyobj list \<Rightarrow> nat \<Rightarrow> episode_plan option" where
  "plan_at h a =
     (if a < length h then
        (case h ! a of
           RefDict refs \<Rightarrow>
             those (map (\<lambda>(k, b).
               if b < length h then
                 (case h ! b of ValueDict sec \<Rightarrow> Some (k, sec) | FloatDict d \<Rightarrow> None | RefDict d \<Rightarrow> None)
               else None) refs)
         | FloatDict d \<Rightarrow> None
         | ValueDict d \<Rightarrow> None)
      else None)"

definition outcome :: "pystate \<Rightarrow> store_error + nat \<Rightarrow> (error + episode_plan) option" where
  "outcome s r =
     (case r of
        Inl (Raised e) \<Rightarrow> Some (Inl e)
      | Inl NameError \<Rightarrow> None
      | Inl TypeError \<Rightarrow> None
      | Inr a \<Rightarrow> map_option Inr (plan_at (objects s) a))"

text \<open>The module state after line 51, with the one global the function uses.\<close>

definition config_state :: pystate where
  "config_state = \<lparr>objects = [FloatDict (BASE_SECTION_WEIGHTS config_globals)],
     module_vars = [(''BASE_SECTION_WEIGHTS'', 0)]\<rparr>"

text \<open>The values of the items of a display, or the first exception, at the value level.\<close>

fun seq_e :: "(string \<times> (error + 'v)) list \<Rightarrow> error + (string \<times> 'v) list" where
  "seq_e [] = Inr []"
| "seq_e ((k, e) # items) = bind_e e (\<lambda>v. bind_e (seq_e items) (\<lambda>vs. Inr ((k, v) # vs)))"

text \<open>
  \<open>weights_bound s T\<close>: in the state \<open>s\<close> the global \<open>BASE_SECTION_WEIGHTS\<close> is bound to a
  dict that holds \<open>T\<close>. \<open>extends s s'\<close>: \<open>s'\<close> has the global bindings of \<open>s\<close> and every
  object of \<open>s\<close> unchanged at its address; it may have more objects.
\<close>

definition weights_bound :: "pystate \<Rightarrow> (string \<times> pyfloat) list \<Rightarrow> bool" where
  "weights_bound s T =
     (case map_of (module_vars s) ''BASE_SECTION_WEIGHTS'' of
        None \<Rightarrow> False
      | Some a \<Rightarrow> a < length (objects s) \<and> objects s ! a = FloatDict T)"

definition extends :: "pystate \<Rightarrow> pystate \<Rightarrow> bool" where
  "extends s s' \<longleftrightarrow>
     module_vars s' = module_vars s
     \<and> length (objects s) \<le> length (objects s')
     \<and> take (length (objects s)) (objects s') = objects s"

section \<open>Rounding to binary64\<close>

subsection \<open>Powers of two and the exponent of a rational\<close>

lemma pow2_pos: "0 < (2::rat) powi e"
  by (simp add: zero_less_power_int)

lemma pow2_mono: "a \<le> b \<Longrightarrow> (2::rat) powi a \<le> 2 powi b"
  by (simp add: power_int_increasing)

lemma pow2_strict_mono: "a < b \<Longrightarrow> (2::rat) powi a < 2 powi b"
  by (simp add: power_int_strict_increasing)

lemma pow2_le_iff: "(2::rat) powi a \<le> 2 powi b \<longleftrightarrow> a \<le> b"
  using pow2_mono[of a b] pow2_strict_mono[of b a] by (auto simp: not_le[symmetric])

lemma pow2_add: "(2::rat) powi (a + b) = 2 powi a * 2 powi b"
  by (simp add: power_int_add)

lemma ilog2_bounds:
  assumes "x \<noteq> 0"
  shows "2 powi (ilog2 x) \<le> \<bar>x\<bar> \<and> \<bar>x\<bar> < 2 powi (ilog2 x + 1)"
proof -
  obtain p q where pq: "quotient_of \<bar>x\<bar> = (p, q)" by (cases "quotient_of \<bar>x\<bar>")
  have q0: "0 < q" using pq quotient_of_denom_pos by blast
  have xq: "\<bar>x\<bar> = of_int p / of_int q" using pq quotient_of_div by blast
  have "0 < \<bar>x\<bar>" using assms by simp
  then have p0: "0 < p" using xq q0 by (simp add: zero_less_divide_iff)
  define bp where "bp = bitlen p"
  define bq where "bq = bitlen q"
  have bp: "2 ^ nat (bp - 1) \<le> p" "p < 2 ^ nat bp" and bq: "2 ^ nat (bq - 1) \<le> q" "q < 2 ^ nat bq"
    using bitlen_bounds[OF p0] bitlen_bounds[OF q0] by (auto simp: bp_def bq_def)
  have bp1: "1 \<le> bp" and bq1: "1 \<le> bq"
    using p0 q0 by (auto simp: bp_def bq_def bitlen_alt_def)
  have P1: "(2::rat) powi (bp - 1) \<le> of_int p" 
  proof -
    have "(2::rat) powi (bp - 1) = 2 ^ nat (bp - 1)" using bp1 by (simp add: power_int_def)
    also have "\<dots> = of_int (2 ^ nat (bp - 1))" by simp
    also have "\<dots> \<le> of_int p" using bp(1) by (simp only: of_int_le_iff)
    finally show ?thesis .
  qed
  have P2: "of_int p < (2::rat) powi bp"
  proof -
    have "(of_int p :: rat) < of_int (2 ^ nat bp)" using bp(2) by (simp only: of_int_less_iff)
    also have "\<dots> = 2 powi bp" using bp1 by (simp add: power_int_def)
    finally show ?thesis .
  qed
  have Q1: "(2::rat) powi (bq - 1) \<le> of_int q" 
  proof -
    have "(2::rat) powi (bq - 1) = 2 ^ nat (bq - 1)" using bq1 by (simp add: power_int_def)
    also have "\<dots> = of_int (2 ^ nat (bq - 1))" by simp
    also have "\<dots> \<le> of_int q" using bq(1) by (simp only: of_int_le_iff)
    finally show ?thesis .
  qed
  have Q2: "of_int q < (2::rat) powi bq"
  proof -
    have "(of_int q :: rat) < of_int (2 ^ nat bq)" using bq(2) by (simp only: of_int_less_iff)
    also have "\<dots> = 2 powi bq" using bq1 by (simp add: power_int_def)
    finally show ?thesis .
  qed
  have qr: "(0::rat) < of_int q" using q0 by simp
  have up: "\<bar>x\<bar> < 2 powi (bp - bq + 1)"
  proof -
    have "\<bar>x\<bar> * 2 powi (bq - 1) \<le> \<bar>x\<bar> * of_int q" using Q1 by (simp add: mult_left_mono)
    also have "\<dots> = of_int p" using xq qr by simp
    also have "\<dots> < 2 powi bp" by (rule P2)
    also have "\<dots> = 2 powi (bp - bq + 1) * 2 powi (bq - 1)" by (simp add: pow2_add[symmetric])
    finally show ?thesis using pow2_pos[of "bq - 1"] by simp
  qed
  have lo: "2 powi (bp - bq - 1) < \<bar>x\<bar>"
  proof -
    have "(2::rat) powi (bp - bq - 1) * of_int q < 2 powi (bp - bq - 1) * 2 powi bq"
      using Q2 pow2_pos[of "bp - bq - 1"] by simp
    also have "\<dots> = 2 powi (bp - 1)" by (simp add: pow2_add[symmetric])
    also have "\<dots> \<le> of_int p" by (rule P1)
    also have "\<dots> = \<bar>x\<bar> * of_int q" using xq qr by simp
    finally show ?thesis using qr by simp
  qed
  show ?thesis
  proof (cases "2 powi (bp - bq) \<le> \<bar>x\<bar>")
    case True
    then have "ilog2 x = bp - bq" by (simp add: ilog2_def pq bp_def bq_def)
    then show ?thesis using True up by simp
  next
    case False
    then have "ilog2 x = bp - bq - 1" by (simp add: ilog2_def pq bp_def bq_def)
    then show ?thesis using False lo by simp
  qed
qed

lemma ilog2_unique:
  assumes "2 powi e \<le> \<bar>x\<bar>" "\<bar>x\<bar> < 2 powi (e + 1)"
  shows "ilog2 x = e"
proof -
  have x0: "x \<noteq> 0"
  proof
    assume "x = 0"
    with assms(1) have "(2::rat) powi e \<le> 0" by simp
    with pow2_pos[of e] show False by linarith
  qed
  note b = ilog2_bounds[OF x0]
  have "2 powi e < (2::rat) powi (ilog2 x + 1)" using assms(1) b by linarith
  then have 1: "e < ilog2 x + 1" using pow2_le_iff[of "ilog2 x + 1" e] by (simp add: not_le[symmetric])
  have "2 powi (ilog2 x) < (2::rat) powi (e + 1)" using assms(2) b by linarith
  then have 2: "ilog2 x < e + 1" using pow2_le_iff[of "e + 1" "ilog2 x"] by (simp add: not_le[symmetric])
  show ?thesis using 1 2 by simp
qed

lemma round_half_even_near:
  assumes "\<bar>m - of_int n\<bar> < 1 / 2"
  shows "round_half_even m = n"
proof -
  have lo: "of_int n - 1 / 2 < m" and hi: "m < of_int n + 1 / 2"
    using assms by (simp_all only: abs_less_iff) linarith+
  have "\<lfloor>m\<rfloor> = n \<or> \<lfloor>m\<rfloor> = n - 1"
  proof (cases "of_int n \<le> m")
    case True
    then have "\<lfloor>m\<rfloor> = n" using hi by (intro floor_unique) auto
    then show ?thesis ..
  next
    case False
    then have "\<lfloor>m\<rfloor> = n - 1" using lo by (intro floor_unique) auto
    then show ?thesis ..
  qed
  then show ?thesis
  proof
    assume f: "\<lfloor>m\<rfloor> = n"
    have "m - of_int n < 1 / 2" using hi by linarith
    then show ?thesis using f by (simp add: round_half_even_def Let_def)
  next
    assume f: "\<lfloor>m\<rfloor> = n - 1"
    have "1 / 2 < m - of_int (n - 1)" using lo by simp
    then show ?thesis using f by (simp add: round_half_even_def Let_def)
  qed
qed

lemma round_half_even_of_int: "round_half_even (of_int n) = n"
  by (rule round_half_even_near) simp

lemma round_binary64_cert:
  assumes "2 powi (k + 52) \<le> \<bar>x\<bar>" "\<bar>x\<bar> < 2 powi (k + 53)" "- 1074 \<le> k"
    and "\<bar>x / 2 powi k - of_int n\<bar> < 1 / 2"
  shows "round_binary64 x = of_int n * 2 powi k"
proof -
  have x0: "x \<noteq> 0"
  proof
    assume "x = 0"
    with assms(1) have "(2::rat) powi (k + 52) \<le> 0" by simp
    with pow2_pos[of "k + 52"] show False by linarith
  qed
  have "ilog2 x = k + 52" using assms(1,2) by (intro ilog2_unique) (simp_all add: add.commute add.left_commute)
  then have "max (ilog2 x) (- 1022) - 52 = k" using assms(3) by simp
  then have "round_binary64 x = of_int (round_half_even (x / 2 powi k)) * 2 powi k"
    using x0 by (simp only: round_binary64_def Let_def if_False)
  then show ?thesis using assms(4) by (simp only: round_half_even_near)
qed

subsection \<open>Checking a rounding against its certificate\<close>

text \<open>
  A rounded value \<open>r = n / 2^j\<close> is confirmed by bounds that the simplifier decides on
  numerals: the scaled argument \<open>x * 2^j\<close> lies in \<open>[2^52, 2^53)\<close> and within one half
  of the integer \<open>n\<close>.
\<close>

lemma pow2_diff_nat: "(2::rat) powi (int a - int j) = 2 ^ a / 2 ^ j"
  by (simp add: power_int_diff)

lemma round_binary64_check:
  fixes x r :: rat
  assumes "r = of_int n / 2 ^ j" "j \<le> 1074" "2 ^ 52 \<le> \<bar>x\<bar> * 2 ^ j" "\<bar>x\<bar> * 2 ^ j < 2 ^ 53"
    and "\<bar>x * 2 ^ j - of_int n\<bar> < 1 / 2"
  shows "round_binary64 x = r"
proof -
  have pj: "(0::rat) < 2 ^ j" by simp
  have p: "(2::rat) powi (- int j) = 1 / 2 ^ j"
    using pow2_diff_nat[of 0 j] by simp
  have d: "x / 2 powi (- int j) = x * 2 ^ j" using p by simp
  have "(2::rat) powi (- int j + 52) = 2 ^ 52 / 2 ^ j"
    using pow2_diff_nat[of 52 j] by simp
  then have 1: "2 powi (- int j + 52) \<le> \<bar>x\<bar>"
    using assms(3) pj by (simp only: pos_divide_le_eq)
  have "(2::rat) powi (- int j + 53) = 2 ^ 53 / 2 ^ j"
    using pow2_diff_nat[of 53 j] by simp
  then have 2: "\<bar>x\<bar> < 2 powi (- int j + 53)"
    using assms(4) pj by (simp only: pos_less_divide_eq)
  have "round_binary64 x = of_int n * 2 powi (- int j)"
    using 1 2 assms(2,5) by (intro round_binary64_cert) (simp_all add: d)
  then show ?thesis using assms(1) p by simp
qed

lemma deliver_check:
  fixes x r :: rat
  assumes "r = of_int n / 2 ^ j" "j \<le> 1074" "2 ^ 52 \<le> \<bar>x\<bar> * 2 ^ j" "\<bar>x\<bar> * 2 ^ j < 2 ^ 53"
    and "\<bar>x * 2 ^ j - of_int n\<bar> < 1 / 2" and "\<bar>r\<bar> \<le> 2 ^ 53"
  shows "deliver x = Finite r"
proof -
  have "(2::rat) ^ 53 < 2 ^ 1024" by (rule power_strict_increasing) simp_all
  then have "\<bar>r\<bar> < 2 ^ 1024" using assms(6) by (rule le_less_trans[rotated])
  then have "\<not> 2 ^ 1024 \<le> r" "\<not> r \<le> - (2 ^ 1024)" by (simp_all only: abs_less_iff) linarith+
  moreover have "round_binary64 x = r" using assms(1-5) by (rule round_binary64_check)
  ultimately show ?thesis by (simp only: deliver_def Let_def if_False)
qed

lemma floor_rat_numeral: "\<lfloor>(numeral a :: rat) / numeral b\<rfloor> = numeral a div numeral b"
  using floor_divide_of_int_eq[of "numeral a" "numeral b", where ?'a = rat] by simp


subsection \<open>Bounds on rounding: symmetry, the finite range, overflow\<close>

lemma round_half_even_le:
  assumes "m \<le> of_int b" shows "round_half_even m \<le> b"
proof -
  have f: "\<lfloor>m\<rfloor> \<le> b" using assms by (simp add: floor_le_iff)
  show ?thesis
  proof (cases "\<lfloor>m\<rfloor> = b")
    case True
    then have "m = of_int \<lfloor>m\<rfloor>" using assms of_int_floor_le[of m] by simp
    then have "m - of_int \<lfloor>m\<rfloor> < 1 / 2" by simp
    then show ?thesis using True by (simp add: round_half_even_def Let_def)
  next
    case False
    then have "\<lfloor>m\<rfloor> + 1 \<le> b" using f by simp
    then show ?thesis by (simp add: round_half_even_def Let_def)
  qed
qed

lemma round_half_even_ge:
  assumes "of_int a \<le> m" shows "a \<le> round_half_even m"
proof -
  have "a \<le> \<lfloor>m\<rfloor>" using assms by (simp add: le_floor_iff)
  then show ?thesis by (simp add: round_half_even_def Let_def)
qed

lemma round_half_even_below_half:
  assumes "m < of_int b - 1 / 2" shows "round_half_even m \<le> b - 1"
proof -
  have "m < of_int b" using assms by simp
  then have f: "\<lfloor>m\<rfloor> \<le> b - 1" by (simp add: floor_less_iff)
  show ?thesis
  proof (cases "\<lfloor>m\<rfloor> = b - 1")
    case True
    then have "m - of_int \<lfloor>m\<rfloor> < 1 / 2" using assms by simp
    then show ?thesis using True by (simp add: round_half_even_def Let_def)
  next
    case False
    then have "\<lfloor>m\<rfloor> + 1 \<le> b - 1" using f by simp
    then show ?thesis by (simp add: round_half_even_def Let_def)
  qed
qed

lemma round_half_even_above_half:
  assumes "of_int b - 1 / 2 \<le> m" "even b" shows "b \<le> round_half_even m"
proof -
  have "of_int (b - 1) \<le> m" using assms(1) by simp
  then have f: "b - 1 \<le> \<lfloor>m\<rfloor>" by (simp only: le_floor_iff)
  show ?thesis
  proof (cases "\<lfloor>m\<rfloor> = b - 1")
    case True
    then have r: "1 / 2 \<le> m - of_int \<lfloor>m\<rfloor>" using assms(1) by simp
    have "odd \<lfloor>m\<rfloor>" using True assms(2) by simp
    then show ?thesis using True r by (simp add: round_half_even_def Let_def)
  next
    case False
    then have "b \<le> \<lfloor>m\<rfloor>" using f by simp
    then show ?thesis by (simp add: round_half_even_def Let_def)
  qed
qed

lemma round_half_even_uminus: "round_half_even (- m) = - round_half_even m"
proof (cases "m = of_int \<lfloor>m\<rfloor>")
  case True
  then obtain z where "m = of_int z" ..
  then show ?thesis using round_half_even_of_int[of z] round_half_even_of_int[of "- z"] by simp
next
  case False
  define f where "f = \<lfloor>m\<rfloor>"
  have a: "of_int f \<le> m" and b: "m < of_int f + 1" unfolding f_def by linarith+
  have c: "m \<noteq> of_int f" using False by (simp only: f_def not_False_eq_True)
  have lt: "of_int f < m" "m < of_int f + 1" using a b c by (metis less_le)+
  have nf: "\<lfloor>- m\<rfloor> = - f - 1" using lt by (intro floor_unique) auto
  consider "m - of_int f < 1 / 2" | "1 / 2 < m - of_int f" | "m - of_int f = 1 / 2" by linarith
  then show ?thesis
  proof cases
    case 1
    then have "round_half_even m = f" by (simp add: round_half_even_def Let_def f_def)
    moreover have "1 / 2 < - m - of_int (- f - 1)" using 1 by simp
    then have "round_half_even (- m) = - f" using nf by (simp add: round_half_even_def Let_def)
    ultimately show ?thesis by simp
  next
    case 2
    then have "round_half_even m = f + 1" by (simp add: round_half_even_def Let_def f_def)
    moreover have "- m - of_int (- f - 1) < 1 / 2" using 2 by simp
    then have "round_half_even (- m) = - f - 1" using nf by (simp add: round_half_even_def Let_def)
    ultimately show ?thesis by simp
  next
    case 3
    then have a: "round_half_even m = (if even f then f else f + 1)"
      by (simp add: round_half_even_def Let_def f_def)
    have "- m - of_int (- f - 1) = 1 / 2" using 3 by simp
    then have "round_half_even (- m) = (if even (- f - 1) then - f - 1 else - f)"
      using nf by (simp add: round_half_even_def Let_def)
    then show ?thesis using a by simp
  qed
qed

lemma ilog2_uminus: "ilog2 (- x) = ilog2 x"
  by (simp add: ilog2_def)

lemma round_binary64_uminus: "round_binary64 (- x) = - round_binary64 x"
  by (simp add: round_binary64_def Let_def ilog2_uminus round_half_even_uminus)

lemma pow2_less_iff: "(2::rat) powi a < 2 powi b \<longleftrightarrow> a < b"
  using pow2_le_iff[of b a] by (simp only: not_le[symmetric])

lemma round_binary64_unfold:
  assumes "x \<noteq> 0"
  shows "round_binary64 x =
    of_int (round_half_even (x / 2 powi (max (ilog2 x) (- 1022) - 52))) * 2 powi (max (ilog2 x) (- 1022) - 52)"
  using assms by (simp only: round_binary64_def Let_def if_False)

lemma round_binary64_nonneg:
  assumes "0 \<le> x" shows "0 \<le> round_binary64 x"
proof (cases "x = 0")
  case True
  then show ?thesis by (simp add: round_binary64_def)
next
  case False
  define q :: rat where "q = 2 powi (max (ilog2 x) (- 1022) - 52)"
  have q: "0 < q" unfolding q_def by (rule pow2_pos)
  then have "of_int 0 \<le> x / q" using assms by simp
  then have "0 \<le> round_half_even (x / q)" by (rule round_half_even_ge)
  then have "0 \<le> of_int (round_half_even (x / q)) * q" using q by simp
  then show ?thesis using round_binary64_unfold[OF False] by (simp only: q_def)
qed

lemma round_binary64_in_range:
  assumes "0 \<le> x" "x < 2 ^ 1024 - 2 ^ 970"
  shows "round_binary64 x \<le> 2 ^ 1024 - 2 ^ 971"
proof (cases "x = 0")
  case True
  then show ?thesis by (simp add: round_binary64_def)
next
  case False
  then have x0: "0 < x" using assms(1) by simp
  define e where "e = max (ilog2 x) (- 1022)"
  define q :: rat where "q = 2 powi (e - 52)"
  define z where "z = round_half_even (x / q)"
  have q: "0 < q" unfolding q_def by (rule pow2_pos)
  have rb: "round_binary64 x = of_int z * q"
    using round_binary64_unfold[OF False] by (simp only: z_def q_def e_def)
  have b: "2 powi (ilog2 x) \<le> x" "x < 2 powi (ilog2 x + 1)"
    using ilog2_bounds[OF False] x0 by simp_all
  have "x < 2 powi 1024" using assms(2) by simp
  then have "(2::rat) powi (ilog2 x) < 2 powi 1024" using b(1) by linarith
  then have "ilog2 x < 1024" by (simp only: pow2_less_iff)
  then have e_le: "e \<le> 1023" by (simp add: e_def)
  have up: "x < 2 powi (e + 1)"
  proof -
    have "(2::rat) powi (ilog2 x + 1) \<le> 2 powi (e + 1)" by (rule pow2_mono) (simp add: e_def)
    then show ?thesis using b(2) by linarith
  qed
  have split: "(2::rat) powi (e + 1) = 2 ^ 53 * q"
  proof -
    have "e + 1 = 53 + (e - 52)" by simp
    then have "(2::rat) powi (e + 1) = 2 powi (53 + (e - 52))" by (rule arg_cong)
    also have "\<dots> = 2 powi 53 * 2 powi (e - 52)" by (rule pow2_add)
    finally show ?thesis by (simp add: q_def)
  qed
  show ?thesis
  proof (cases "e \<le> 1022")
    case True
    have "x / q < 2 ^ 53" using up split q by (simp add: pos_divide_less_eq)
    then have "x / q \<le> of_int (2 ^ 53)" by simp
    then have "z \<le> 2 ^ 53" unfolding z_def by (rule round_half_even_le)
    then have "(of_int z :: rat) \<le> of_int (2 ^ 53)" by (simp only: of_int_le_iff)
    then have "of_int z * q \<le> 2 ^ 53 * q" using q by simp
    also have "\<dots> = 2 powi (e + 1)" by (simp only: split)
    also have "\<dots> \<le> 2 powi 1023" by (rule pow2_mono) (use True in simp)
    also have "\<dots> \<le> 2 ^ 1024 - 2 ^ 971" by simp
    finally show ?thesis by (simp only: rb)
  next
    case False
    then have e: "e = 1023" using e_le by simp
    have qv: "q = 2 ^ 971" by (simp add: q_def e)
    have "x / q < (2 ^ 1024 - 2 ^ 970) / 2 ^ 971" using assms(2) by (simp add: qv divide_strict_right_mono)
    also have "\<dots> = of_int (2 ^ 53) - 1 / 2" by simp
    finally have "z \<le> 2 ^ 53 - 1" unfolding z_def by (rule round_half_even_below_half)
    then have "(of_int z :: rat) \<le> of_int (2 ^ 53 - 1)" by (simp only: of_int_le_iff)
    then have "of_int z * q \<le> of_int (2 ^ 53 - 1) * q" using q by (simp only: mult_le_cancel_right_pos)
    also have "\<dots> = 2 ^ 1024 - 2 ^ 971" by (simp add: qv)
    finally show ?thesis by (simp only: rb)
  qed
qed

lemma round_binary64_overflow:
  assumes "2 ^ 1024 - 2 ^ 970 \<le> x"
  shows "2 ^ 1024 \<le> round_binary64 x"
proof -
  have x0: "0 < x" using assms by simp
  then have nz: "x \<noteq> 0" by simp
  define e where "e = max (ilog2 x) (- 1022)"
  define q :: rat where "q = 2 powi (e - 52)"
  define z where "z = round_half_even (x / q)"
  have q: "0 < q" unfolding q_def by (rule pow2_pos)
  have rb: "round_binary64 x = of_int z * q"
    using round_binary64_unfold[OF nz] by (simp only: z_def q_def e_def)
  have b: "2 powi (ilog2 x) \<le> x" "x < 2 powi (ilog2 x + 1)"
    using ilog2_bounds[OF nz] x0 by simp_all
  have "2 powi 1023 \<le> x" using assms by simp
  then have "(2::rat) powi 1023 < 2 powi (ilog2 x + 1)" using b(2) by linarith
  then have "1023 < ilog2 x + 1" by (simp only: pow2_less_iff)
  then have e_ge: "1023 \<le> e" and ee: "e = ilog2 x" by (simp_all add: e_def)
  show ?thesis
  proof (cases "e = 1023")
    case True
    have qv: "q = 2 ^ 971" by (simp add: q_def True)
    have "of_int (2 ^ 53) - 1 / 2 = ((2::rat) ^ 1024 - 2 ^ 970) / 2 ^ 971" by simp
    also have "\<dots> \<le> x / q" using assms by (simp add: qv divide_right_mono)
    finally have "2 ^ 53 \<le> z" unfolding z_def by (rule round_half_even_above_half) simp
    then have "(of_int (2 ^ 53) :: rat) \<le> of_int z" by (simp only: of_int_le_iff)
    then have "of_int (2 ^ 53) * q \<le> of_int z * q" using q by (simp only: mult_le_cancel_right_pos)
    moreover have "of_int (2 ^ 53) * q = 2 ^ 1024" by (simp add: qv)
    ultimately show ?thesis by (simp only: rb)
  next
    case False
    then have e: "1024 \<le> e" using e_ge by simp
    have split: "(2::rat) powi e = 2 ^ 52 * q"
    proof -
      have "e = 52 + (e - 52)" by simp
      then have "(2::rat) powi e = 2 powi (52 + (e - 52))" by (rule arg_cong)
      also have "\<dots> = 2 powi 52 * 2 powi (e - 52)" by (rule pow2_add)
      finally show ?thesis by (simp add: q_def)
    qed
    have "2 ^ 52 * q \<le> x" using b(1) split by (simp only: ee)
    then have "of_int (2 ^ 52) \<le> x / q" using q by (simp add: pos_le_divide_eq)
    then have "2 ^ 52 \<le> z" unfolding z_def by (rule round_half_even_ge)
    then have "(of_int (2 ^ 52) :: rat) \<le> of_int z" by (simp only: of_int_le_iff)
    then have "of_int (2 ^ 52) * q \<le> of_int z * q" using q by (simp only: mult_le_cancel_right_pos)
    moreover have "of_int (2 ^ 52) * q = 2 powi e" using split by simp
    moreover have "(2::rat) powi 1024 \<le> 2 powi e" by (rule pow2_mono) (rule e)
    moreover have "(2::rat) powi 1024 = 2 ^ 1024" by simp
    ultimately show ?thesis by (simp only: rb)
  qed
qed

lemma round_binary64_abs_in_range:
  assumes "\<bar>x\<bar> < 2 ^ 1024 - 2 ^ 970"
  shows "\<bar>round_binary64 x\<bar> \<le> 2 ^ 1024 - 2 ^ 971"
proof (cases "0 \<le> x")
  case True
  then have "0 \<le> round_binary64 x" by (rule round_binary64_nonneg)
  moreover have "round_binary64 x \<le> 2 ^ 1024 - 2 ^ 971"
    using True assms by (intro round_binary64_in_range) simp_all
  ultimately show ?thesis by simp
next
  case False
  then have n: "0 \<le> - x" by simp
  then have "0 \<le> round_binary64 (- x)" by (rule round_binary64_nonneg)
  moreover have "round_binary64 (- x) \<le> 2 ^ 1024 - 2 ^ 971"
    using n assms False by (intro round_binary64_in_range) simp_all
  ultimately show ?thesis by (simp add: round_binary64_uminus)
qed

lemma round_binary64_abs_overflow:
  assumes "2 ^ 1024 - 2 ^ 970 \<le> \<bar>x\<bar>"
  shows "2 ^ 1024 \<le> \<bar>round_binary64 x\<bar>"
proof (cases "0 \<le> x")
  case True
  then have "2 ^ 1024 \<le> round_binary64 x" using assms by (intro round_binary64_overflow) simp
  then show ?thesis by simp
next
  case False
  then have "2 ^ 1024 \<le> round_binary64 (- x)" using assms by (intro round_binary64_overflow) simp
  then show ?thesis by (simp add: round_binary64_uminus)
qed

lemma limit_of_int: "(of_int float_int_limit :: rat) = 2 ^ 1024 - 2 ^ 970"
  by (simp add: float_int_limit_def)

lemma float_of_int_in_range:
  assumes "\<bar>n\<bar> < float_int_limit"
  shows "float_of_int n = Inr (Finite (round_binary64 (of_int n)))"
    and "\<bar>round_binary64 (of_int n)\<bar> \<le> 2 ^ 1024 - 2 ^ 971"
proof -
  have "(of_int \<bar>n\<bar> :: rat) < of_int float_int_limit" using assms by (simp only: of_int_less_iff)
  then have "\<bar>of_int n :: rat\<bar> < 2 ^ 1024 - 2 ^ 970" by (simp only: limit_of_int of_int_abs)
  then show b: "\<bar>round_binary64 (of_int n)\<bar> \<le> 2 ^ 1024 - 2 ^ 971"
    by (rule round_binary64_abs_in_range)
  have "(2::rat) ^ 1024 - 2 ^ 971 < 2 ^ 1024" by simp
  then have "\<not> 2 ^ 1024 \<le> \<bar>round_binary64 (of_int n)\<bar>" using b by linarith
  then show "float_of_int n = Inr (Finite (round_binary64 (of_int n)))"
    by (simp only: float_of_int_def Let_def if_False)
qed

lemma float_of_int_overflow:
  assumes "float_int_limit \<le> \<bar>n\<bar>"
  shows "float_of_int n = Inl OverflowError"
proof -
  have "(of_int float_int_limit :: rat) \<le> of_int \<bar>n\<bar>" using assms by (simp only: of_int_le_iff)
  then have "2 ^ 1024 - 2 ^ 970 \<le> \<bar>of_int n :: rat\<bar>" by (simp only: limit_of_int of_int_abs)
  then have "2 ^ 1024 \<le> \<bar>round_binary64 (of_int n)\<bar>" by (rule round_binary64_abs_overflow)
  then show ?thesis by (simp only: float_of_int_def Let_def if_True)
qed

lemma float_mul_in_range:
  assumes "\<bar>a\<bar> \<le> 2 ^ 1024 - 2 ^ 971" "\<bar>b\<bar> \<le> 1"
  shows "float_mul (Finite a) (Finite b) = Finite (round_binary64 (a * b))"
proof -
  have "\<bar>a * b\<bar> \<le> \<bar>a\<bar> * 1" unfolding abs_mult using assms(2) by (intro mult_left_mono) simp_all
  also have "\<dots> \<le> 2 ^ 1024 - 2 ^ 971" using assms(1) by simp
  also have "\<dots> < (2::rat) ^ 1024 - 2 ^ 970" by simp
  finally have "\<bar>round_binary64 (a * b)\<bar> \<le> 2 ^ 1024 - 2 ^ 971" by (rule round_binary64_abs_in_range)
  moreover have "(2::rat) ^ 1024 - 2 ^ 971 < 2 ^ 1024" by simp
  ultimately have "\<bar>round_binary64 (a * b)\<bar> < 2 ^ 1024" by linarith
  then have "\<not> 2 ^ 1024 \<le> round_binary64 (a * b)" "\<not> round_binary64 (a * b) \<le> - (2 ^ 1024)"
    by (simp_all only: abs_less_iff) linarith+
  then show ?thesis by (simp only: float_mul.simps deliver_def Let_def if_False)
qed

lemma budget_in_range:
  assumes "\<bar>n\<bar> < float_int_limit" "\<bar>w\<bar> \<le> 1"
  shows "\<exists>z. py_int (int_times_float n (Inr (Finite w))) = Inr z"
  using float_of_int_in_range[OF assms(1)] float_mul_in_range[OF _ assms(2)]
  by (simp add: py_int_def int_times_float_def bind_e_def int_of_float_def)

lemma budget_overflow:
  assumes "float_int_limit \<le> \<bar>n\<bar>"
  shows "py_int (int_times_float n (Inr (Finite w))) = Inl OverflowError"
  using float_of_int_overflow[OF assms]
  by (simp add: py_int_def int_times_float_def bind_e_def)

subsection \<open>The same check for each float operation\<close>

lemma float_mul_check:
  fixes a b r :: rat
  assumes "r = of_int n / 2 ^ j" "j \<le> 1074" "2 ^ 52 \<le> \<bar>a * b\<bar> * 2 ^ j" "\<bar>a * b\<bar> * 2 ^ j < 2 ^ 53"
    and "\<bar>a * b * 2 ^ j - of_int n\<bar> < 1 / 2" and "\<bar>r\<bar> \<le> 2 ^ 53"
  shows "float_mul (Finite a) (Finite b) = Finite r"
  unfolding float_mul.simps using assms by (rule deliver_check)

lemma float_truediv_check:
  fixes a b r :: rat
  assumes "r = of_int n / 2 ^ j" "j \<le> 1074" "2 ^ 52 \<le> \<bar>a / b\<bar> * 2 ^ j" "\<bar>a / b\<bar> * 2 ^ j < 2 ^ 53"
    and "\<bar>a / b * 2 ^ j - of_int n\<bar> < 1 / 2" and "\<bar>r\<bar> \<le> 2 ^ 53"
  shows "float_truediv (Finite a) (Finite b) = Inr (Finite r)"
proof -
  have "b \<noteq> 0" using assms(3) by auto
  then show ?thesis using deliver_check[OF assms] by (simp add: float_truediv.simps)
qed

lemma float_of_int_check:
  fixes r :: rat
  assumes "r = of_int n / 2 ^ j" "j \<le> 1074" "2 ^ 52 \<le> \<bar>of_int m :: rat\<bar> * 2 ^ j"
    and "\<bar>of_int m :: rat\<bar> * 2 ^ j < 2 ^ 53"
    and "\<bar>(of_int m :: rat) * 2 ^ j - of_int n\<bar> < 1 / 2" and "\<bar>r\<bar> \<le> 2 ^ 53"
  shows "float_of_int m = Inr (Finite r)"
proof -
  have "(2::rat) ^ 53 < 2 ^ 1024" by (rule power_strict_increasing) simp_all
  then have "\<not> 2 ^ 1024 \<le> \<bar>r\<bar>" using assms(6) by linarith
  moreover have "round_binary64 (of_int m) = r" using assms(1-5) by (rule round_binary64_check)
  ultimately show ?thesis by (simp only: float_of_int_def Let_def if_False)
qed

section \<open>The floats of the module at 15, 30 and 45 minutes\<close>

text \<open>
  The weights of the table, the conversions of the integers, the per-story shares of the
  \<open>main_stories\<close> weight and every product \<open>total_seconds * weight\<close> and
  \<open>target_word_count * weight\<close>, each with the certificate of its rounding.
\<close>

lemma literal_intro_outro: "float_literal (5 / 100) = Finite (3602879701896397 / 72057594037927936)"
  unfolding float_literal_def
  by (rule deliver_check[where n = 7205759403792794 and j = 57]) simp_all

lemma literal_main_stories: "float_literal (65 / 100) = Finite (5854679515581645 / 9007199254740992)"
  unfolding float_literal_def
  by (rule deliver_check[where n = 5854679515581645 and j = 53]) simp_all

lemma literal_tech_spotlight: "float_literal (15 / 100) = Finite (5404319552844595 / 36028797018963968)"
  unfolding float_literal_def
  by (rule deliver_check[where n = 5404319552844595 and j = 55]) simp_all

lemma literal_listener_questions: "float_literal (8 / 100) = Finite (5764607523034235 / 72057594037927936)"
  unfolding float_literal_def
  by (rule deliver_check[where n = 5764607523034235 and j = 56]) simp_all

lemma literal_optional: "float_literal (10 / 100) = Finite (3602879701896397 / 36028797018963968)"
  unfolding float_literal_def
  by (rule deliver_check[where n = 7205759403792794 and j = 56]) simp_all

lemma literal_transitions: "float_literal (7 / 100) = Finite (1261007895663739 / 18014398509481984)"
  unfolding float_literal_def
  by (rule deliver_check[where n = 5044031582654956 and j = 56]) simp_all

lemma convert_900: "float_of_int 900 = Inr (Finite 900)"
  by (rule float_of_int_check[where n = 7916483719987200 and j = 43]) simp_all

lemma convert_1800: "float_of_int 1800 = Inr (Finite 1800)"
  by (rule float_of_int_check[where n = 7916483719987200 and j = 42]) simp_all

lemma convert_2700: "float_of_int 2700 = Inr (Finite 2700)"
  by (rule float_of_int_check[where n = 5937362789990400 and j = 41]) simp_all

lemma convert_2250: "float_of_int 2250 = Inr (Finite 2250)"
  by (rule float_of_int_check[where n = 4947802324992000 and j = 41]) simp_all

lemma convert_4500: "float_of_int 4500 = Inr (Finite 4500)"
  by (rule float_of_int_check[where n = 4947802324992000 and j = 40]) simp_all

lemma convert_6750: "float_of_int 6750 = Inr (Finite 6750)"
  by (rule float_of_int_check[where n = 7421703487488000 and j = 40]) simp_all

lemma convert_2: "float_of_int 2 = Inr (Finite 2)"
  by (rule float_of_int_check[where n = 4503599627370496 and j = 51]) simp_all

lemma convert_3: "float_of_int 3 = Inr (Finite 3)"
  by (rule float_of_int_check[where n = 6755399441055744 and j = 51]) simp_all

lemma convert_4: "float_of_int 4 = Inr (Finite 4)"
  by (rule float_of_int_check[where n = 4503599627370496 and j = 50]) simp_all

lemma share_2: "float_truediv (Finite (5854679515581645 / 9007199254740992)) (Finite 2) = Inr (Finite (5854679515581645 / 18014398509481984))"
  by (rule float_truediv_check[where n = 5854679515581645 and j = 54]) simp_all

lemma share_3: "float_truediv (Finite (5854679515581645 / 9007199254740992)) (Finite 3) = Inr (Finite (1951559838527215 / 9007199254740992))"
  by (rule float_truediv_check[where n = 7806239354108860 and j = 55]) simp_all

lemma share_4: "float_truediv (Finite (5854679515581645 / 9007199254740992)) (Finite 4) = Inr (Finite (5854679515581645 / 36028797018963968))"
  by (rule float_truediv_check[where n = 5854679515581645 and j = 55]) simp_all

lemma product_seconds_15_intro_outro: "float_mul (Finite 900) (Finite (3602879701896397 / 72057594037927936)) = Finite 45"
  by (rule float_mul_check[where n = 6333186975989760 and j = 47]) simp_all

lemma budget_seconds_15_intro_outro: "py_int (int_times_float 900 (Inr (Finite (3602879701896397 / 72057594037927936)))) = Inr 45"
  by (simp add: py_int_def int_times_float_def bind_e_def convert_900 product_seconds_15_intro_outro int_of_float_def floor_rat_numeral)

lemma product_seconds_15_tech_spotlight: "float_mul (Finite 900) (Finite (5404319552844595 / 36028797018963968)) = Finite 135"
  by (rule float_mul_check[where n = 4749890231992320 and j = 45]) simp_all

lemma budget_seconds_15_tech_spotlight: "py_int (int_times_float 900 (Inr (Finite (5404319552844595 / 36028797018963968)))) = Inr 135"
  by (simp add: py_int_def int_times_float_def bind_e_def convert_900 product_seconds_15_tech_spotlight int_of_float_def floor_rat_numeral)

lemma product_seconds_15_listener_questions: "float_mul (Finite 900) (Finite (5764607523034235 / 72057594037927936)) = Finite 72"
  by (rule float_mul_check[where n = 5066549580791808 and j = 46]) simp_all

lemma budget_seconds_15_listener_questions: "py_int (int_times_float 900 (Inr (Finite (5764607523034235 / 72057594037927936)))) = Inr 72"
  by (simp add: py_int_def int_times_float_def bind_e_def convert_900 product_seconds_15_listener_questions int_of_float_def floor_rat_numeral)

lemma product_seconds_15_transitions: "float_mul (Finite 900) (Finite (1261007895663739 / 18014398509481984)) = Finite (8866461766385665 / 140737488355328)"
  by (rule float_mul_check[where n = 8866461766385665 and j = 47]) simp_all

lemma budget_seconds_15_transitions: "py_int (int_times_float 900 (Inr (Finite (1261007895663739 / 18014398509481984)))) = Inr 63"
  by (simp add: py_int_def int_times_float_def bind_e_def convert_900 product_seconds_15_transitions int_of_float_def floor_rat_numeral)

lemma product_seconds_15_optional: "float_mul (Finite 900) (Finite (3602879701896397 / 36028797018963968)) = Finite 90"
  by (rule float_mul_check[where n = 6333186975989760 and j = 46]) simp_all

lemma budget_seconds_15_optional: "py_int (int_times_float 900 (Inr (Finite (3602879701896397 / 36028797018963968)))) = Inr 90"
  by (simp add: py_int_def int_times_float_def bind_e_def convert_900 product_seconds_15_optional int_of_float_def floor_rat_numeral)

lemma product_seconds_15_story: "float_mul (Finite 900) (Finite (5854679515581645 / 18014398509481984)) = Finite (585 / 2)"
  by (rule float_mul_check[where n = 5145714417991680 and j = 44]) simp_all

lemma budget_seconds_15_story: "py_int (int_times_float 900 (Inr (Finite (5854679515581645 / 18014398509481984)))) = Inr 292"
  by (simp add: py_int_def int_times_float_def bind_e_def convert_900 product_seconds_15_story int_of_float_def floor_rat_numeral)

lemma product_words_15_intro_outro: "float_mul (Finite 2250) (Finite (3602879701896397 / 72057594037927936)) = Finite (225 / 2)"
  by (rule float_mul_check[where n = 7916483719987200 and j = 46]) simp_all

lemma budget_words_15_intro_outro: "py_int (int_times_float 2250 (Inr (Finite (3602879701896397 / 72057594037927936)))) = Inr 112"
  by (simp add: py_int_def int_times_float_def bind_e_def convert_2250 product_words_15_intro_outro int_of_float_def floor_rat_numeral)

lemma product_words_15_tech_spotlight: "float_mul (Finite 2250) (Finite (5404319552844595 / 36028797018963968)) = Finite (675 / 2)"
  by (rule float_mul_check[where n = 5937362789990400 and j = 44]) simp_all

lemma budget_words_15_tech_spotlight: "py_int (int_times_float 2250 (Inr (Finite (5404319552844595 / 36028797018963968)))) = Inr 337"
  by (simp add: py_int_def int_times_float_def bind_e_def convert_2250 product_words_15_tech_spotlight int_of_float_def floor_rat_numeral)

lemma product_words_15_listener_questions: "float_mul (Finite 2250) (Finite (5764607523034235 / 72057594037927936)) = Finite 180"
  by (rule float_mul_check[where n = 6333186975989760 and j = 45]) simp_all

lemma budget_words_15_listener_questions: "py_int (int_times_float 2250 (Inr (Finite (5764607523034235 / 72057594037927936)))) = Inr 180"
  by (simp add: py_int_def int_times_float_def bind_e_def convert_2250 product_words_15_listener_questions int_of_float_def floor_rat_numeral)

lemma product_words_15_transitions: "float_mul (Finite 2250) (Finite (1261007895663739 / 18014398509481984)) = Finite (5541538603991041 / 35184372088832)"
  by (rule float_mul_check[where n = 5541538603991041 and j = 45]) simp_all

lemma budget_words_15_transitions: "py_int (int_times_float 2250 (Inr (Finite (1261007895663739 / 18014398509481984)))) = Inr 157"
  by (simp add: py_int_def int_times_float_def bind_e_def convert_2250 product_words_15_transitions int_of_float_def floor_rat_numeral)

lemma product_words_15_optional: "float_mul (Finite 2250) (Finite (3602879701896397 / 36028797018963968)) = Finite 225"
  by (rule float_mul_check[where n = 7916483719987200 and j = 45]) simp_all

lemma budget_words_15_optional: "py_int (int_times_float 2250 (Inr (Finite (3602879701896397 / 36028797018963968)))) = Inr 225"
  by (simp add: py_int_def int_times_float_def bind_e_def convert_2250 product_words_15_optional int_of_float_def floor_rat_numeral)

lemma product_words_15_story: "float_mul (Finite 2250) (Finite (5854679515581645 / 18014398509481984)) = Finite (2925 / 4)"
  by (rule float_mul_check[where n = 6432143022489600 and j = 43]) simp_all

lemma budget_words_15_story: "py_int (int_times_float 2250 (Inr (Finite (5854679515581645 / 18014398509481984)))) = Inr 731"
  by (simp add: py_int_def int_times_float_def bind_e_def convert_2250 product_words_15_story int_of_float_def floor_rat_numeral)

lemma product_seconds_30_intro_outro: "float_mul (Finite 1800) (Finite (3602879701896397 / 72057594037927936)) = Finite 90"
  by (rule float_mul_check[where n = 6333186975989760 and j = 46]) simp_all

lemma budget_seconds_30_intro_outro: "py_int (int_times_float 1800 (Inr (Finite (3602879701896397 / 72057594037927936)))) = Inr 90"
  by (simp add: py_int_def int_times_float_def bind_e_def convert_1800 product_seconds_30_intro_outro int_of_float_def floor_rat_numeral)

lemma product_seconds_30_tech_spotlight: "float_mul (Finite 1800) (Finite (5404319552844595 / 36028797018963968)) = Finite 270"
  by (rule float_mul_check[where n = 4749890231992320 and j = 44]) simp_all

lemma budget_seconds_30_tech_spotlight: "py_int (int_times_float 1800 (Inr (Finite (5404319552844595 / 36028797018963968)))) = Inr 270"
  by (simp add: py_int_def int_times_float_def bind_e_def convert_1800 product_seconds_30_tech_spotlight int_of_float_def floor_rat_numeral)

lemma product_seconds_30_listener_questions: "float_mul (Finite 1800) (Finite (5764607523034235 / 72057594037927936)) = Finite 144"
  by (rule float_mul_check[where n = 5066549580791808 and j = 45]) simp_all

lemma budget_seconds_30_listener_questions: "py_int (int_times_float 1800 (Inr (Finite (5764607523034235 / 72057594037927936)))) = Inr 144"
  by (simp add: py_int_def int_times_float_def bind_e_def convert_1800 product_seconds_30_listener_questions int_of_float_def floor_rat_numeral)

lemma product_seconds_30_transitions: "float_mul (Finite 1800) (Finite (1261007895663739 / 18014398509481984)) = Finite (8866461766385665 / 70368744177664)"
  by (rule float_mul_check[where n = 8866461766385665 and j = 46]) simp_all

lemma budget_seconds_30_transitions: "py_int (int_times_float 1800 (Inr (Finite (1261007895663739 / 18014398509481984)))) = Inr 126"
  by (simp add: py_int_def int_times_float_def bind_e_def convert_1800 product_seconds_30_transitions int_of_float_def floor_rat_numeral)

lemma product_seconds_30_optional: "float_mul (Finite 1800) (Finite (3602879701896397 / 36028797018963968)) = Finite 180"
  by (rule float_mul_check[where n = 6333186975989760 and j = 45]) simp_all

lemma budget_seconds_30_optional: "py_int (int_times_float 1800 (Inr (Finite (3602879701896397 / 36028797018963968)))) = Inr 180"
  by (simp add: py_int_def int_times_float_def bind_e_def convert_1800 product_seconds_30_optional int_of_float_def floor_rat_numeral)

lemma product_seconds_30_story: "float_mul (Finite 1800) (Finite (1951559838527215 / 9007199254740992)) = Finite 390"
  by (rule float_mul_check[where n = 6860952557322240 and j = 44]) simp_all

lemma budget_seconds_30_story: "py_int (int_times_float 1800 (Inr (Finite (1951559838527215 / 9007199254740992)))) = Inr 390"
  by (simp add: py_int_def int_times_float_def bind_e_def convert_1800 product_seconds_30_story int_of_float_def floor_rat_numeral)

lemma product_words_30_intro_outro: "float_mul (Finite 4500) (Finite (3602879701896397 / 72057594037927936)) = Finite 225"
  by (rule float_mul_check[where n = 7916483719987200 and j = 45]) simp_all

lemma budget_words_30_intro_outro: "py_int (int_times_float 4500 (Inr (Finite (3602879701896397 / 72057594037927936)))) = Inr 225"
  by (simp add: py_int_def int_times_float_def bind_e_def convert_4500 product_words_30_intro_outro int_of_float_def floor_rat_numeral)

lemma product_words_30_tech_spotlight: "float_mul (Finite 4500) (Finite (5404319552844595 / 36028797018963968)) = Finite 675"
  by (rule float_mul_check[where n = 5937362789990400 and j = 43]) simp_all

lemma budget_words_30_tech_spotlight: "py_int (int_times_float 4500 (Inr (Finite (5404319552844595 / 36028797018963968)))) = Inr 675"
  by (simp add: py_int_def int_times_float_def bind_e_def convert_4500 product_words_30_tech_spotlight int_of_float_def floor_rat_numeral)

lemma product_words_30_listener_questions: "float_mul (Finite 4500) (Finite (5764607523034235 / 72057594037927936)) = Finite 360"
  by (rule float_mul_check[where n = 6333186975989760 and j = 44]) simp_all

lemma budget_words_30_listener_questions: "py_int (int_times_float 4500 (Inr (Finite (5764607523034235 / 72057594037927936)))) = Inr 360"
  by (simp add: py_int_def int_times_float_def bind_e_def convert_4500 product_words_30_listener_questions int_of_float_def floor_rat_numeral)

lemma product_words_30_transitions: "float_mul (Finite 4500) (Finite (1261007895663739 / 18014398509481984)) = Finite (5541538603991041 / 17592186044416)"
  by (rule float_mul_check[where n = 5541538603991041 and j = 44]) simp_all

lemma budget_words_30_transitions: "py_int (int_times_float 4500 (Inr (Finite (1261007895663739 / 18014398509481984)))) = Inr 315"
  by (simp add: py_int_def int_times_float_def bind_e_def convert_4500 product_words_30_transitions int_of_float_def floor_rat_numeral)

lemma product_words_30_optional: "float_mul (Finite 4500) (Finite (3602879701896397 / 36028797018963968)) = Finite 450"
  by (rule float_mul_check[where n = 7916483719987200 and j = 44]) simp_all

lemma budget_words_30_optional: "py_int (int_times_float 4500 (Inr (Finite (3602879701896397 / 36028797018963968)))) = Inr 450"
  by (simp add: py_int_def int_times_float_def bind_e_def convert_4500 product_words_30_optional int_of_float_def floor_rat_numeral)

lemma product_words_30_story: "float_mul (Finite 4500) (Finite (1951559838527215 / 9007199254740992)) = Finite 975"
  by (rule float_mul_check[where n = 8576190696652800 and j = 43]) simp_all

lemma budget_words_30_story: "py_int (int_times_float 4500 (Inr (Finite (1951559838527215 / 9007199254740992)))) = Inr 975"
  by (simp add: py_int_def int_times_float_def bind_e_def convert_4500 product_words_30_story int_of_float_def floor_rat_numeral)

lemma product_seconds_45_intro_outro: "float_mul (Finite 2700) (Finite (3602879701896397 / 72057594037927936)) = Finite 135"
  by (rule float_mul_check[where n = 4749890231992320 and j = 45]) simp_all

lemma budget_seconds_45_intro_outro: "py_int (int_times_float 2700 (Inr (Finite (3602879701896397 / 72057594037927936)))) = Inr 135"
  by (simp add: py_int_def int_times_float_def bind_e_def convert_2700 product_seconds_45_intro_outro int_of_float_def floor_rat_numeral)

lemma product_seconds_45_tech_spotlight: "float_mul (Finite 2700) (Finite (5404319552844595 / 36028797018963968)) = Finite 405"
  by (rule float_mul_check[where n = 7124835347988480 and j = 44]) simp_all

lemma budget_seconds_45_tech_spotlight: "py_int (int_times_float 2700 (Inr (Finite (5404319552844595 / 36028797018963968)))) = Inr 405"
  by (simp add: py_int_def int_times_float_def bind_e_def convert_2700 product_seconds_45_tech_spotlight int_of_float_def floor_rat_numeral)

lemma product_seconds_45_listener_questions: "float_mul (Finite 2700) (Finite (5764607523034235 / 72057594037927936)) = Finite 216"
  by (rule float_mul_check[where n = 7599824371187712 and j = 45]) simp_all

lemma budget_seconds_45_listener_questions: "py_int (int_times_float 2700 (Inr (Finite (5764607523034235 / 72057594037927936)))) = Inr 216"
  by (simp add: py_int_def int_times_float_def bind_e_def convert_2700 product_seconds_45_listener_questions int_of_float_def floor_rat_numeral)

lemma product_seconds_45_transitions: "float_mul (Finite 2700) (Finite (1261007895663739 / 18014398509481984)) = Finite (6649846324789249 / 35184372088832)"
  by (rule float_mul_check[where n = 6649846324789249 and j = 45]) simp_all

lemma budget_seconds_45_transitions: "py_int (int_times_float 2700 (Inr (Finite (1261007895663739 / 18014398509481984)))) = Inr 189"
  by (simp add: py_int_def int_times_float_def bind_e_def convert_2700 product_seconds_45_transitions int_of_float_def floor_rat_numeral)

lemma product_seconds_45_optional: "float_mul (Finite 2700) (Finite (3602879701896397 / 36028797018963968)) = Finite 270"
  by (rule float_mul_check[where n = 4749890231992320 and j = 44]) simp_all

lemma budget_seconds_45_optional: "py_int (int_times_float 2700 (Inr (Finite (3602879701896397 / 36028797018963968)))) = Inr 270"
  by (simp add: py_int_def int_times_float_def bind_e_def convert_2700 product_seconds_45_optional int_of_float_def floor_rat_numeral)

lemma product_seconds_45_story: "float_mul (Finite 2700) (Finite (5854679515581645 / 36028797018963968)) = Finite (1755 / 4)"
  by (rule float_mul_check[where n = 7718571626987520 and j = 44]) simp_all

lemma budget_seconds_45_story: "py_int (int_times_float 2700 (Inr (Finite (5854679515581645 / 36028797018963968)))) = Inr 438"
  by (simp add: py_int_def int_times_float_def bind_e_def convert_2700 product_seconds_45_story int_of_float_def floor_rat_numeral)

lemma product_words_45_intro_outro: "float_mul (Finite 6750) (Finite (3602879701896397 / 72057594037927936)) = Finite (675 / 2)"
  by (rule float_mul_check[where n = 5937362789990400 and j = 44]) simp_all

lemma budget_words_45_intro_outro: "py_int (int_times_float 6750 (Inr (Finite (3602879701896397 / 72057594037927936)))) = Inr 337"
  by (simp add: py_int_def int_times_float_def bind_e_def convert_6750 product_words_45_intro_outro int_of_float_def floor_rat_numeral)

lemma product_words_45_tech_spotlight: "float_mul (Finite 6750) (Finite (5404319552844595 / 36028797018963968)) = Finite (2025 / 2)"
  by (rule float_mul_check[where n = 8906044184985600 and j = 43]) simp_all

lemma budget_words_45_tech_spotlight: "py_int (int_times_float 6750 (Inr (Finite (5404319552844595 / 36028797018963968)))) = Inr 1012"
  by (simp add: py_int_def int_times_float_def bind_e_def convert_6750 product_words_45_tech_spotlight int_of_float_def floor_rat_numeral)

lemma product_words_45_listener_questions: "float_mul (Finite 6750) (Finite (5764607523034235 / 72057594037927936)) = Finite 540"
  by (rule float_mul_check[where n = 4749890231992320 and j = 43]) simp_all

lemma budget_words_45_listener_questions: "py_int (int_times_float 6750 (Inr (Finite (5764607523034235 / 72057594037927936)))) = Inr 540"
  by (simp add: py_int_def int_times_float_def bind_e_def convert_6750 product_words_45_listener_questions int_of_float_def floor_rat_numeral)

lemma product_words_45_transitions: "float_mul (Finite 6750) (Finite (1261007895663739 / 18014398509481984)) = Finite (8312307905986561 / 17592186044416)"
  by (rule float_mul_check[where n = 8312307905986561 and j = 44]) simp_all

lemma budget_words_45_transitions: "py_int (int_times_float 6750 (Inr (Finite (1261007895663739 / 18014398509481984)))) = Inr 472"
  by (simp add: py_int_def int_times_float_def bind_e_def convert_6750 product_words_45_transitions int_of_float_def floor_rat_numeral)

lemma product_words_45_optional: "float_mul (Finite 6750) (Finite (3602879701896397 / 36028797018963968)) = Finite 675"
  by (rule float_mul_check[where n = 5937362789990400 and j = 43]) simp_all

lemma budget_words_45_optional: "py_int (int_times_float 6750 (Inr (Finite (3602879701896397 / 36028797018963968)))) = Inr 675"
  by (simp add: py_int_def int_times_float_def bind_e_def convert_6750 product_words_45_optional int_of_float_def floor_rat_numeral)

lemma product_words_45_story: "float_mul (Finite 6750) (Finite (5854679515581645 / 36028797018963968)) = Finite (8775 / 8)"
  by (rule float_mul_check[where n = 4824107266867200 and j = 42]) simp_all

lemma budget_words_45_story: "py_int (int_times_float 6750 (Inr (Finite (5854679515581645 / 36028797018963968)))) = Inr 1096"
  by (simp add: py_int_def int_times_float_def bind_e_def convert_6750 product_words_45_story int_of_float_def floor_rat_numeral)


lemmas budgets = budget_seconds_15_intro_outro budget_seconds_15_tech_spotlight budget_seconds_15_listener_questions budget_seconds_15_transitions budget_seconds_15_optional budget_seconds_15_story budget_words_15_intro_outro budget_words_15_tech_spotlight budget_words_15_listener_questions budget_words_15_transitions budget_words_15_optional budget_words_15_story budget_seconds_30_intro_outro budget_seconds_30_tech_spotlight budget_seconds_30_listener_questions budget_seconds_30_transitions budget_seconds_30_optional budget_seconds_30_story budget_words_30_intro_outro budget_words_30_tech_spotlight budget_words_30_listener_questions budget_words_30_transitions budget_words_30_optional budget_words_30_story budget_seconds_45_intro_outro budget_seconds_45_tech_spotlight budget_seconds_45_listener_questions budget_seconds_45_transitions budget_seconds_45_optional budget_seconds_45_story budget_words_45_intro_outro budget_words_45_tech_spotlight budget_words_45_listener_questions budget_words_45_transitions budget_words_45_optional budget_words_45_story

lemma config_weights:
  "BASE_SECTION_WEIGHTS config_globals =
    [(''intro'', Finite (3602879701896397 / 72057594037927936)),
     (''main_stories'', Finite (5854679515581645 / 9007199254740992)),
     (''tech_spotlight'', Finite (5404319552844595 / 36028797018963968)),
     (''listener_questions'', Finite (5764607523034235 / 72057594037927936)),
     (''deep_dive'', Finite (3602879701896397 / 36028797018963968)),
     (''expert_interview'', Finite (3602879701896397 / 36028797018963968)),
     (''outro'', Finite (3602879701896397 / 72057594037927936)),
     (''transitions'', Finite (1261007895663739 / 18014398509481984))]"
  unfolding config_globals_def
  by (simp only: globals.simps literal_intro_outro literal_main_stories literal_tech_spotlight
      literal_listener_questions literal_optional literal_transitions)

lemma story_keys:
  "str_int 1 = ''1''" "str_int 2 = ''2''" "str_int 3 = ''3''" "str_int 4 = ''4''"
  by code_simp+

lemma story_range:
  "[1..2] = [1, 2::int]" "[1..3] = [1, 2, 3::int]" "[1..4] = [1, 2, 3, 4::int]"
  by (simp_all add: upto_rec1)


lemma bind_e_simps: "bind_e (Inl e) f = Inl e" "bind_e (Inr x) f = f x"
  by (simp_all add: bind_e_def)

lemmas body_simps = calculate_section_allocation_def Let_def config_weights getitem_def dict_display_def
  setitem_def bind_e_simps int_val_def float_val_def bool_val_def story_keys story_range
  num_main_stories_def

section \<open>The plans of the three supported durations\<close>

lemma allocation_15:
  "calculate_section_allocation config_globals 15 = Inr
    [(''intro'', [(''duration_seconds'', PInt 45), (''weight'', PFloat (Finite (3602879701896397 / 72057594037927936))), (''word_count_target'', PInt 112)]),
     (''outro'', [(''duration_seconds'', PInt 45), (''weight'', PFloat (Finite (3602879701896397 / 72057594037927936))), (''word_count_target'', PInt 112)]),
     (''tech_spotlight'', [(''duration_seconds'', PInt 135), (''weight'', PFloat (Finite (5404319552844595 / 36028797018963968))), (''word_count_target'', PInt 337)]),
     (''listener_questions'', [(''duration_seconds'', PInt 72), (''weight'', PFloat (Finite (5764607523034235 / 72057594037927936))), (''word_count_target'', PInt 180), (''enabled'', PBool True)]),
     (''transitions'', [(''duration_seconds'', PInt 63), (''weight'', PFloat (Finite (1261007895663739 / 18014398509481984)))]),
     (''main_story_1'', [(''duration_seconds'', PInt 292), (''weight'', PFloat (Finite (5854679515581645 / 18014398509481984))), (''word_count_target'', PInt 731)]),
     (''main_story_2'', [(''duration_seconds'', PInt 292), (''weight'', PFloat (Finite (5854679515581645 / 18014398509481984))), (''word_count_target'', PInt 731)]),
     (''deep_dive'', [(''duration_seconds'', PInt 90), (''weight'', PFloat (Finite (3602879701896397 / 36028797018963968))), (''word_count_target'', PInt 225), (''enabled'', PBool False)]),
     (''expert_interview'', [(''duration_seconds'', PInt 90), (''weight'', PFloat (Finite (3602879701896397 / 36028797018963968))), (''word_count_target'', PInt 225), (''enabled'', PBool False)])]"
  by (simp add: body_simps float_over_int_def convert_2 convert_3 convert_4
      share_2 share_3 share_4 budgets)

lemma allocation_30:
  "calculate_section_allocation config_globals 30 = Inr
    [(''intro'', [(''duration_seconds'', PInt 90), (''weight'', PFloat (Finite (3602879701896397 / 72057594037927936))), (''word_count_target'', PInt 225)]),
     (''outro'', [(''duration_seconds'', PInt 90), (''weight'', PFloat (Finite (3602879701896397 / 72057594037927936))), (''word_count_target'', PInt 225)]),
     (''tech_spotlight'', [(''duration_seconds'', PInt 270), (''weight'', PFloat (Finite (5404319552844595 / 36028797018963968))), (''word_count_target'', PInt 675)]),
     (''listener_questions'', [(''duration_seconds'', PInt 144), (''weight'', PFloat (Finite (5764607523034235 / 72057594037927936))), (''word_count_target'', PInt 360), (''enabled'', PBool True)]),
     (''transitions'', [(''duration_seconds'', PInt 126), (''weight'', PFloat (Finite (1261007895663739 / 18014398509481984)))]),
     (''main_story_1'', [(''duration_seconds'', PInt 390), (''weight'', PFloat (Finite (1951559838527215 / 9007199254740992))), (''word_count_target'', PInt 975)]),
     (''main_story_2'', [(''duration_seconds'', PInt 390), (''weight'', PFloat (Finite (1951559838527215 / 9007199254740992))), (''word_count_target'', PInt 975)]),
     (''main_story_3'', [(''duration_seconds'', PInt 390), (''weight'', PFloat (Finite (1951559838527215 / 9007199254740992))), (''word_count_target'', PInt 975)]),
     (''deep_dive'', [(''duration_seconds'', PInt 180), (''weight'', PFloat (Finite (3602879701896397 / 36028797018963968))), (''word_count_target'', PInt 450), (''enabled'', PBool False)]),
     (''expert_interview'', [(''duration_seconds'', PInt 180), (''weight'', PFloat (Finite (3602879701896397 / 36028797018963968))), (''word_count_target'', PInt 450), (''enabled'', PBool False)])]"
  by (simp add: body_simps float_over_int_def convert_2 convert_3 convert_4
      share_2 share_3 share_4 budgets)

lemma allocation_45:
  "calculate_section_allocation config_globals 45 = Inr
    [(''intro'', [(''duration_seconds'', PInt 135), (''weight'', PFloat (Finite (3602879701896397 / 72057594037927936))), (''word_count_target'', PInt 337)]),
     (''outro'', [(''duration_seconds'', PInt 135), (''weight'', PFloat (Finite (3602879701896397 / 72057594037927936))), (''word_count_target'', PInt 337)]),
     (''tech_spotlight'', [(''duration_seconds'', PInt 405), (''weight'', PFloat (Finite (5404319552844595 / 36028797018963968))), (''word_count_target'', PInt 1012)]),
     (''listener_questions'', [(''duration_seconds'', PInt 216), (''weight'', PFloat (Finite (5764607523034235 / 72057594037927936))), (''word_count_target'', PInt 540), (''enabled'', PBool True)]),
     (''transitions'', [(''duration_seconds'', PInt 189), (''weight'', PFloat (Finite (1261007895663739 / 18014398509481984)))]),
     (''main_story_1'', [(''duration_seconds'', PInt 438), (''weight'', PFloat (Finite (5854679515581645 / 36028797018963968))), (''word_count_target'', PInt 1096)]),
     (''main_story_2'', [(''duration_seconds'', PInt 438), (''weight'', PFloat (Finite (5854679515581645 / 36028797018963968))), (''word_count_target'', PInt 1096)]),
     (''main_story_3'', [(''duration_seconds'', PInt 438), (''weight'', PFloat (Finite (5854679515581645 / 36028797018963968))), (''word_count_target'', PInt 1096)]),
     (''main_story_4'', [(''duration_seconds'', PInt 438), (''weight'', PFloat (Finite (5854679515581645 / 36028797018963968))), (''word_count_target'', PInt 1096)]),
     (''deep_dive'', [(''duration_seconds'', PInt 270), (''weight'', PFloat (Finite (3602879701896397 / 36028797018963968))), (''word_count_target'', PInt 675), (''enabled'', PBool False)]),
     (''expert_interview'', [(''duration_seconds'', PInt 270), (''weight'', PFloat (Finite (3602879701896397 / 36028797018963968))), (''word_count_target'', PInt 675), (''enabled'', PBool False)])]"
  by (simp add: body_simps float_over_int_def convert_2 convert_3 convert_4
      share_2 share_3 share_4 budgets)

section \<open>The plan of any duration\<close>

text \<open>
  For any duration whose products convert to a float, the call returns a plan of the same
  layout; for any other duration, the first conversion that is too large raises.
\<close>

lemma story_share:
  "\<exists>wm. float_over_int (Inr (Finite (5854679515581645 / 9007199254740992))) (num_main_stories d) = Inr (Finite wm)
     \<and> \<bar>wm\<bar> \<le> 1"
proof -
  have "num_main_stories d = 2 \<or> num_main_stories d = 3 \<or> num_main_stories d = 4"
    by (simp add: num_main_stories_def)
  then show ?thesis
  proof (elim disjE)
    assume "num_main_stories d = 2"
    then show ?thesis
      by (intro exI[of _ "5854679515581645 / 18014398509481984"])
         (simp add: float_over_int_def bind_e_simps convert_2 share_2)
  next
    assume "num_main_stories d = 3"
    then show ?thesis
      by (intro exI[of _ "1951559838527215 / 9007199254740992"])
         (simp add: float_over_int_def bind_e_simps convert_3 share_3)
  next
    assume "num_main_stories d = 4"
    then show ?thesis
      by (intro exI[of _ "5854679515581645 / 36028797018963968"])
         (simp add: float_over_int_def bind_e_simps convert_4 share_4)
  qed
qed

lemma allocation_in_range:
  assumes "\<bar>d\<bar> * 150 < float_int_limit"
  shows "\<exists>s1 c1 s2 c2 s3 c3 s4 s5 c5 sm cm wm.
    calculate_section_allocation config_globals d = Inr
     ([(''intro'', [(''duration_seconds'', PInt s1),
          (''weight'', PFloat (Finite (3602879701896397 / 72057594037927936))),
          (''word_count_target'', PInt c1)]),
       (''outro'', [(''duration_seconds'', PInt s1),
          (''weight'', PFloat (Finite (3602879701896397 / 72057594037927936))),
          (''word_count_target'', PInt c1)]),
       (''tech_spotlight'', [(''duration_seconds'', PInt s2),
          (''weight'', PFloat (Finite (5404319552844595 / 36028797018963968))),
          (''word_count_target'', PInt c2)]),
       (''listener_questions'', [(''duration_seconds'', PInt s3),
          (''weight'', PFloat (Finite (5764607523034235 / 72057594037927936))),
          (''word_count_target'', PInt c3), (''enabled'', PBool True)]),
       (''transitions'', [(''duration_seconds'', PInt s4),
          (''weight'', PFloat (Finite (1261007895663739 / 18014398509481984)))])]
      @ map (\<lambda>i. (''main_story_'' @ str_int i, [(''duration_seconds'', PInt sm),
          (''weight'', PFloat (Finite wm)), (''word_count_target'', PInt cm)]))
          [1..num_main_stories d]
      @ [(''deep_dive'', [(''duration_seconds'', PInt s5),
          (''weight'', PFloat (Finite (3602879701896397 / 36028797018963968))),
          (''word_count_target'', PInt c5), (''enabled'', PBool False)]),
         (''expert_interview'', [(''duration_seconds'', PInt s5),
          (''weight'', PFloat (Finite (3602879701896397 / 36028797018963968))),
          (''word_count_target'', PInt c5), (''enabled'', PBool False)])])"
proof -
  have r150: "\<bar>d * 150\<bar> < float_int_limit" using assms by (simp add: abs_mult)
  have r60: "\<bar>d * 60\<bar> < float_int_limit" using assms by (simp add: abs_mult)
  have b60: "\<exists>z. py_int (int_times_float (d * 60) (Inr (Finite w))) = Inr z" if "\<bar>w\<bar> \<le> 1" for w
    using budget_in_range[OF r60 that] .
  have b150: "\<exists>z. py_int (int_times_float (d * 150) (Inr (Finite w))) = Inr z" if "\<bar>w\<bar> \<le> 1" for w
    using budget_in_range[OF r150 that] .
  obtain wm where wm: "float_over_int (Inr (Finite (5854679515581645 / 9007199254740992)))
      (num_main_stories d) = Inr (Finite wm)" and wm1: "\<bar>wm\<bar> \<le> 1"
    using story_share by blast
  obtain s1 where s1: "py_int (int_times_float (d * 60) (Inr (Finite (3602879701896397 / 72057594037927936)))) = Inr s1"
    using b60[of "3602879701896397 / 72057594037927936"] by auto
  obtain c1 where c1: "py_int (int_times_float (d * 150) (Inr (Finite (3602879701896397 / 72057594037927936)))) = Inr c1"
    using b150[of "3602879701896397 / 72057594037927936"] by auto
  obtain s2 where s2: "py_int (int_times_float (d * 60) (Inr (Finite (5404319552844595 / 36028797018963968)))) = Inr s2"
    using b60[of "5404319552844595 / 36028797018963968"] by auto
  obtain c2 where c2: "py_int (int_times_float (d * 150) (Inr (Finite (5404319552844595 / 36028797018963968)))) = Inr c2"
    using b150[of "5404319552844595 / 36028797018963968"] by auto
  obtain s3 where s3: "py_int (int_times_float (d * 60) (Inr (Finite (5764607523034235 / 72057594037927936)))) = Inr s3"
    using b60[of "5764607523034235 / 72057594037927936"] by auto
  obtain c3 where c3: "py_int (int_times_float (d * 150) (Inr (Finite (5764607523034235 / 72057594037927936)))) = Inr c3"
    using b150[of "5764607523034235 / 72057594037927936"] by auto
  obtain s4 where s4: "py_int (int_times_float (d * 60) (Inr (Finite (1261007895663739 / 18014398509481984)))) = Inr s4"
    using b60[of "1261007895663739 / 18014398509481984"] by auto
  obtain s5 where s5: "py_int (int_times_float (d * 60) (Inr (Finite (3602879701896397 / 36028797018963968)))) = Inr s5"
    using b60[of "3602879701896397 / 36028797018963968"] by auto
  obtain c5 where c5: "py_int (int_times_float (d * 150) (Inr (Finite (3602879701896397 / 36028797018963968)))) = Inr c5"
    using b150[of "3602879701896397 / 36028797018963968"] by auto
  obtain sm where sm: "py_int (int_times_float (d * 60) (Inr (Finite wm))) = Inr sm"
    using b60[OF wm1] by auto
  obtain cm where cm: "py_int (int_times_float (d * 150) (Inr (Finite wm))) = Inr cm"
    using b150[OF wm1] by auto
  note eqs = s1 c1 s2 c2 s3 c3 s4 s5 c5 sm cm
  have "calculate_section_allocation config_globals d = Inr
     ([(''intro'', [(''duration_seconds'', PInt s1),
          (''weight'', PFloat (Finite (3602879701896397 / 72057594037927936))),
          (''word_count_target'', PInt c1)]),
       (''outro'', [(''duration_seconds'', PInt s1),
          (''weight'', PFloat (Finite (3602879701896397 / 72057594037927936))),
          (''word_count_target'', PInt c1)]),
       (''tech_spotlight'', [(''duration_seconds'', PInt s2),
          (''weight'', PFloat (Finite (5404319552844595 / 36028797018963968))),
          (''word_count_target'', PInt c2)]),
       (''listener_questions'', [(''duration_seconds'', PInt s3),
          (''weight'', PFloat (Finite (5764607523034235 / 72057594037927936))),
          (''word_count_target'', PInt c3), (''enabled'', PBool True)]),
       (''transitions'', [(''duration_seconds'', PInt s4),
          (''weight'', PFloat (Finite (1261007895663739 / 18014398509481984)))])]
      @ map (\<lambda>i. (''main_story_'' @ str_int i, [(''duration_seconds'', PInt sm),
          (''weight'', PFloat (Finite wm)), (''word_count_target'', PInt cm)]))
          [1..num_main_stories d]
      @ [(''deep_dive'', [(''duration_seconds'', PInt s5),
          (''weight'', PFloat (Finite (3602879701896397 / 36028797018963968))),
          (''word_count_target'', PInt c5), (''enabled'', PBool False)]),
         (''expert_interview'', [(''duration_seconds'', PInt s5),
          (''weight'', PFloat (Finite (3602879701896397 / 36028797018963968))),
          (''word_count_target'', PInt c5), (''enabled'', PBool False)])])"
  proof (cases "d = 15")
    case True
    then show ?thesis using wm eqs by (simp add: body_simps)
  next
    case False
    note n15 = this
    show ?thesis
    proof (cases "d = 30")
      case True
      then show ?thesis using wm eqs by (simp add: body_simps)
    next
      case False
      then show ?thesis using n15 wm eqs by (simp add: body_simps)
    qed
  qed
  then show ?thesis by blast
qed

lemma allocation_overflow:
  assumes "float_int_limit \<le> \<bar>d\<bar> * 150"
  shows "calculate_section_allocation config_globals d = Inl OverflowError"
proof (cases "float_int_limit \<le> \<bar>d * 60\<bar>")
  case True
  then have "py_int (int_times_float (d * 60) (Inr (Finite w))) = Inl OverflowError" for w
    by (rule budget_overflow)
  then show ?thesis by (simp add: body_simps)
next
  case False
  then have "\<exists>z. py_int (int_times_float (d * 60) (Inr (Finite (3602879701896397 / 72057594037927936)))) = Inr z"
    by (intro budget_in_range) simp_all
  then obtain z where z: "py_int (int_times_float (d * 60) (Inr (Finite (3602879701896397 / 72057594037927936)))) = Inr z" ..
  have "float_int_limit \<le> \<bar>d * 150\<bar>" using assms by (simp add: abs_mult)
  then have "py_int (int_times_float (d * 150) (Inr (Finite w))) = Inl OverflowError" for w
    by (rule budget_overflow)
  then show ?thesis using z by (simp add: body_simps)
qed

section \<open>The duration read from the environment\<close>

text \<open>
  C1: the normalization step maps any integer \<open>d\<close> to 15 when \<open>d < 15\<close>, to 45 when
  \<open>d > 45\<close>, to \<open>d\<close> when \<open>d\<close> is 15, 30 or 45, and otherwise to 15 when \<open>d < 22\<close>, to 30
  when \<open>d < 37\<close> and to 45 in the remaining case. Hence the result is always one of
  15, 30 and 45, and 5, 21, 22, 36, 37, 100 give 15, 15, 30, 30, 45, 45.
\<close>

theorem PODCAST_DURATION_MINUTES_spec:
  "PODCAST_DURATION_MINUTES d =
     (if d < 15 then 15
      else if d > 45 then 45
      else if d = 15 \<or> d = 30 \<or> d = 45 then d
      else if d < 22 then 15 else if d < 37 then 30 else 45)
   \<and> (PODCAST_DURATION_MINUTES d = 15 \<or> PODCAST_DURATION_MINUTES d = 30
        \<or> PODCAST_DURATION_MINUTES d = 45)
   \<and> PODCAST_DURATION_MINUTES 5 = 15 \<and> PODCAST_DURATION_MINUTES 21 = 15
   \<and> PODCAST_DURATION_MINUTES 22 = 30 \<and> PODCAST_DURATION_MINUTES 36 = 30
   \<and> PODCAST_DURATION_MINUTES 37 = 45 \<and> PODCAST_DURATION_MINUTES 100 = 45"
  by (simp add: PODCAST_DURATION_MINUTES_def)

section \<open>The number of main stories\<close>

lemma story_slots:
  "map f [1..num_main_stories d] =
     (if d = 15 then [f 1, f 2] else if d = 30 then [f 1, f 2, f 3] else [f 1, f 2, f 3, f 4])"
  by (simp add: num_main_stories_def story_range)

lemma allocation_returns:
  assumes "calculate_section_allocation config_globals d = Inr plan"
  shows "\<bar>d\<bar> * 150 < float_int_limit"
proof (rule ccontr)
  assume "\<not> \<bar>d\<bar> * 150 < float_int_limit"
  then have "calculate_section_allocation config_globals d = Inl OverflowError"
    by (intro allocation_overflow) simp
  then show False using assms by simp
qed

text \<open>
  C2: the plans of 15, 30 and 45 minutes have exactly 2, 3 and 4 main-story entries, and
  the keys that start with \<open>main_story_\<close> are \<open>main_story_1\<close> to \<open>main_story_N\<close>, in
  this order, with no gap and no other such key.
\<close>

theorem main_story_count:
  "(\<exists>plan. calculate_section_allocation config_globals 15 = Inr plan
      \<and> main_story_keys plan = [''main_story_1'', ''main_story_2''])
   \<and> (\<exists>plan. calculate_section_allocation config_globals 30 = Inr plan
      \<and> main_story_keys plan = [''main_story_1'', ''main_story_2'', ''main_story_3''])
   \<and> (\<exists>plan. calculate_section_allocation config_globals 45 = Inr plan
      \<and> main_story_keys plan = [''main_story_1'', ''main_story_2'', ''main_story_3'', ''main_story_4''])"
  by (simp add: allocation_15 allocation_30 allocation_45 main_story_keys_def)

text \<open>
  C9: called with any integer other than 15 and 30 (such as 20, 0 or a negative number),
  the function returns a plan whenever the products convert to a float, and every plan it
  returns has exactly the four main-story keys \<open>main_story_1\<close> to \<open>main_story_4\<close>: the
  last branch of the story count takes every such duration.
\<close>

theorem unsupported_duration_has_four_stories:
  assumes "d \<noteq> 15" "d \<noteq> 30"
  shows "(\<bar>d\<bar> * 150 < float_int_limit \<longrightarrow> (\<exists>plan. calculate_section_allocation config_globals d = Inr plan))
    \<and> (\<forall>plan. calculate_section_allocation config_globals d = Inr plan \<longrightarrow>
          main_story_keys plan = [''main_story_1'', ''main_story_2'', ''main_story_3'', ''main_story_4''])"
proof (intro conjI impI allI)
  assume "\<bar>d\<bar> * 150 < float_int_limit"
  from allocation_in_range[OF this] show "\<exists>plan. calculate_section_allocation config_globals d = Inr plan"
    by blast
next
  fix plan assume p: "calculate_section_allocation config_globals d = Inr plan"
  from allocation_in_range[OF allocation_returns[OF p]] p assms
  show "main_story_keys plan = [''main_story_1'', ''main_story_2'', ''main_story_3'', ''main_story_4'']"
    by (auto simp add: story_slots story_keys main_story_keys_def)
qed

theorem unsupported_duration_has_four_stories_witness:
  "(\<exists>plan. calculate_section_allocation config_globals 20 = Inr plan
      \<and> main_story_keys plan = [''main_story_1'', ''main_story_2'', ''main_story_3'', ''main_story_4''])
   \<and> (\<exists>plan. calculate_section_allocation config_globals 0 = Inr plan
      \<and> main_story_keys plan = [''main_story_1'', ''main_story_2'', ''main_story_3'', ''main_story_4''])
   \<and> (\<exists>plan. calculate_section_allocation config_globals (- 7) = Inr plan
      \<and> main_story_keys plan = [''main_story_1'', ''main_story_2'', ''main_story_3'', ''main_story_4''])"
  using unsupported_duration_has_four_stories[of 20] unsupported_duration_has_four_stories[of 0]
    unsupported_duration_has_four_stories[of "- 7"]
  by (simp add: float_int_limit_def) blast

section \<open>Time and word budgets\<close>

lemmas plan_simps = field_def item_def main_story_keys_def content_sections_def
  decimal_weights_def num_main_stories_def floor_rat_numeral

text \<open>
  C3: at 15, 30 and 45 minutes, every section with a weight of its own has
  \<open>duration_seconds = floor (D*60 * weight)\<close> and, where it has the field,
  \<open>word_count_target = floor (D*150 * weight)\<close>, with the weight read as the decimal of the
  table; every main-story slot has the same \<open>floor (D*60 * (0.65 / N))\<close> and
  \<open>floor (D*150 * (0.65 / N))\<close>. So the binary64 products of the code truncate to the
  floors of the exact products. At 30 minutes \<open>intro\<close> gets 90 seconds and
  \<open>main_story_1\<close> gets 390.
\<close>

theorem budgets_are_floors:
  assumes "D = 15 \<or> D = 30 \<or> D = 45"
  shows "(\<exists>plan. calculate_section_allocation config_globals D = Inr plan
     \<and> (\<forall>(k, w) \<in> set decimal_weights. k \<noteq> ''main_stories'' \<longrightarrow>
           field plan k ''duration_seconds'' = Some (PInt \<lfloor>of_int (D * 60) * w\<rfloor>))
     \<and> (\<forall>(k, w) \<in> set decimal_weights. k \<noteq> ''main_stories'' \<longrightarrow> k \<noteq> ''transitions'' \<longrightarrow>
           field plan k ''word_count_target'' = Some (PInt \<lfloor>of_int (D * 150) * w\<rfloor>))
     \<and> main_story_keys plan \<noteq> []
     \<and> (\<forall>k \<in> set (main_story_keys plan).
           field plan k ''duration_seconds'' =
             Some (PInt \<lfloor>of_int (D * 60) * (65 / 100 / of_int (num_main_stories D) :: rat)\<rfloor>)
         \<and> field plan k ''word_count_target'' =
             Some (PInt \<lfloor>of_int (D * 150) * (65 / 100 / of_int (num_main_stories D) :: rat)\<rfloor>)))
   \<and> item (calculate_section_allocation config_globals 30) ''intro'' ''duration_seconds''
       = Some (PInt 90)
   \<and> item (calculate_section_allocation config_globals 30) ''main_story_1'' ''duration_seconds''
       = Some (PInt 390)"
proof -
  have a: "item (calculate_section_allocation config_globals 30) ''intro'' ''duration_seconds''
       = Some (PInt 90)"
    by (simp add: allocation_30 plan_simps)
  have b: "item (calculate_section_allocation config_globals 30) ''main_story_1'' ''duration_seconds''
       = Some (PInt 390)"
    by (simp add: allocation_30 plan_simps)
  from assms have "\<exists>plan. calculate_section_allocation config_globals D = Inr plan
     \<and> (\<forall>(k, w) \<in> set decimal_weights. k \<noteq> ''main_stories'' \<longrightarrow>
           field plan k ''duration_seconds'' = Some (PInt \<lfloor>of_int (D * 60) * w\<rfloor>))
     \<and> (\<forall>(k, w) \<in> set decimal_weights. k \<noteq> ''main_stories'' \<longrightarrow> k \<noteq> ''transitions'' \<longrightarrow>
           field plan k ''word_count_target'' = Some (PInt \<lfloor>of_int (D * 150) * w\<rfloor>))
     \<and> main_story_keys plan \<noteq> []
     \<and> (\<forall>k \<in> set (main_story_keys plan).
           field plan k ''duration_seconds'' =
             Some (PInt \<lfloor>of_int (D * 60) * (65 / 100 / of_int (num_main_stories D) :: rat)\<rfloor>)
         \<and> field plan k ''word_count_target'' =
             Some (PInt \<lfloor>of_int (D * 150) * (65 / 100 / of_int (num_main_stories D) :: rat)\<rfloor>))"
  proof (elim disjE)
    assume "D = 15"
    then show ?thesis by (simp add: allocation_15 plan_simps)
  next
    assume "D = 30"
    then show ?thesis by (simp add: allocation_30 plan_simps)
  next
    assume "D = 45"
    then show ?thesis by (simp add: allocation_45 plan_simps)
  qed
  then show ?thesis using a b by blast
qed

theorem budgets_are_floors_witness:
  "item (calculate_section_allocation config_globals 45) ''transitions'' ''duration_seconds''
      = Some (PInt 189)
   \<and> item (calculate_section_allocation config_globals 45) ''main_story_4'' ''word_count_target''
      = Some (PInt 1096)"
  using budgets_are_floors[of 45]
  by (simp add: allocation_45 plan_simps)


lemma allocated_seconds_values:
  "allocated_seconds (calculate_section_allocation config_globals 15) = Some 1124"
  "allocated_seconds (calculate_section_allocation config_globals 30) = Some 2250"
  "allocated_seconds (calculate_section_allocation config_globals 45) = Some 3372"
  by (simp_all add: allocation_15 allocation_30 allocation_45 allocated_seconds_def section_seconds_def)

text \<open>
  C4, as stated, fails: the \<open>duration_seconds\<close> of the plan of 30 minutes add up to 2250,
  which is not less than \<open>30 * 60 = 1800\<close>.
\<close>

theorem allocated_seconds_not_below_total:
  "allocated_seconds (calculate_section_allocation config_globals 30) = Some 2250
   \<and> \<not> (2250 :: int) < 30 * 60"
  by (simp add: allocated_seconds_values)

text \<open>
  C4, amended: at 15, 30 and 45 minutes the \<open>duration_seconds\<close> of all sections of the plan
  add up to more than \<open>D * 60\<close> and to at most \<open>1.25 * D * 60\<close> (the weights of the
  sections sum to 1.25): 1124, 2250 and 3372 seconds.
\<close>

theorem allocated_seconds_exceed_total:
  assumes "D = 15 \<or> D = 30 \<or> D = 45"
  shows "\<exists>total. allocated_seconds (calculate_section_allocation config_globals D) = Some total
     \<and> D * 60 < total \<and> 4 * total \<le> 5 * (D * 60)
     \<and> total = (if D = 15 then 1124 else if D = 30 then 2250 else 3372)"
  using assms by (auto simp add: allocated_seconds_values)

theorem allocated_seconds_exceed_total_witness:
  "allocated_seconds (calculate_section_allocation config_globals 15) = Some 1124
   \<and> (15 :: int) * 60 < 1124 \<and> 4 * 1124 \<le> 5 * ((15 :: int) * 60)"
  using allocated_seconds_exceed_total[of 15] by simp

lemma returns_intro: "r = Inr p \<Longrightarrow> P p \<Longrightarrow> \<exists>plan. r = Inr plan \<and> P plan"
  by blast

lemma share_times_count:
  "float_mul (Finite 2) (Finite (5854679515581645 / 18014398509481984)) = Finite (5854679515581645 / 9007199254740992)"
  "float_mul (Finite 3) (Finite (1951559838527215 / 9007199254740992)) = Finite (5854679515581645 / 9007199254740992)"
  "float_mul (Finite 4) (Finite (5854679515581645 / 36028797018963968)) = Finite (5854679515581645 / 9007199254740992)"
  by (rule float_mul_check[where n = 5854679515581645 and j = 53]; simp)+

text \<open>
  C5: at 15, 30 and 45 minutes all main-story slots carry one weight \<open>w\<close>, and \<open>w\<close> times
  the number of main stories is the \<open>main_stories\<close> weight of the table: exactly so as a
  rational and as the float product, and within \<open>10^-16\<close> of the decimal 0.65.
\<close>

theorem main_stories_weight_conserved:
  assumes "D = 15 \<or> D = 30 \<or> D = 45"
  shows "\<exists>plan. calculate_section_allocation config_globals D = Inr plan
     \<and> main_story_keys plan \<noteq> []
     \<and> (\<exists>w. (\<forall>k \<in> set (main_story_keys plan). field plan k ''weight'' = Some (PFloat (Finite w)))
         \<and> \<bar>w * of_int (num_main_stories D) - 65 / 100\<bar> < 1 / 10 ^ 16
         \<and> getitem (BASE_SECTION_WEIGHTS config_globals) ''main_stories''
              = Inr (Finite (w * of_int (num_main_stories D)))
         \<and> int_times_float (num_main_stories D) (Inr (Finite w))
              = getitem (BASE_SECTION_WEIGHTS config_globals) ''main_stories'')"
  using assms
proof (elim disjE)
  assume d: "D = 15"
  show ?thesis unfolding d
    by (rule returns_intro[OF allocation_15], intro conjI exI[of _ "5854679515581645 / 18014398509481984"])
       (simp_all add: plan_simps config_weights getitem_def int_times_float_def
          bind_e_simps convert_2 share_times_count)
next
  assume d: "D = 30"
  show ?thesis unfolding d
    by (rule returns_intro[OF allocation_30], intro conjI exI[of _ "1951559838527215 / 9007199254740992"])
       (simp_all add: plan_simps config_weights getitem_def int_times_float_def
          bind_e_simps convert_3 share_times_count)
next
  assume d: "D = 45"
  show ?thesis unfolding d
    by (rule returns_intro[OF allocation_45], intro conjI exI[of _ "5854679515581645 / 36028797018963968"])
       (simp_all add: plan_simps config_weights getitem_def int_times_float_def
          bind_e_simps convert_4 share_times_count)
qed

theorem main_stories_weight_conserved_witness:
  "\<exists>plan. calculate_section_allocation config_globals 30 = Inr plan
     \<and> main_story_keys plan \<noteq> []
     \<and> (\<exists>w. (\<forall>k \<in> set (main_story_keys plan). field plan k ''weight'' = Some (PFloat (Finite w)))
         \<and> \<bar>w * of_int (num_main_stories 30) - 65 / 100\<bar> < 1 / 10 ^ 16
         \<and> getitem (BASE_SECTION_WEIGHTS config_globals) ''main_stories''
              = Inr (Finite (w * of_int (num_main_stories 30)))
         \<and> int_times_float (num_main_stories 30) (Inr (Finite w))
              = getitem (BASE_SECTION_WEIGHTS config_globals) ''main_stories'')"
  by (rule main_stories_weight_conserved[of 30]) simp

section \<open>The fields of a returned plan\<close>

lemma allocation_shape:
  assumes "calculate_section_allocation config_globals d = Inr plan"
  shows "\<exists>s1 c1 s2 c2 s3 c3 s4 s5 c5 sm cm wm. plan =
     [(''intro'', [(''duration_seconds'', PInt s1),
          (''weight'', PFloat (Finite (3602879701896397 / 72057594037927936))),
          (''word_count_target'', PInt c1)]),
       (''outro'', [(''duration_seconds'', PInt s1),
          (''weight'', PFloat (Finite (3602879701896397 / 72057594037927936))),
          (''word_count_target'', PInt c1)]),
       (''tech_spotlight'', [(''duration_seconds'', PInt s2),
          (''weight'', PFloat (Finite (5404319552844595 / 36028797018963968))),
          (''word_count_target'', PInt c2)]),
       (''listener_questions'', [(''duration_seconds'', PInt s3),
          (''weight'', PFloat (Finite (5764607523034235 / 72057594037927936))),
          (''word_count_target'', PInt c3), (''enabled'', PBool True)]),
       (''transitions'', [(''duration_seconds'', PInt s4),
          (''weight'', PFloat (Finite (1261007895663739 / 18014398509481984)))])]
      @ map (\<lambda>i. (''main_story_'' @ str_int i, [(''duration_seconds'', PInt sm),
          (''weight'', PFloat (Finite wm)), (''word_count_target'', PInt cm)]))
          [1..num_main_stories d]
      @ [(''deep_dive'', [(''duration_seconds'', PInt s5),
          (''weight'', PFloat (Finite (3602879701896397 / 36028797018963968))),
          (''word_count_target'', PInt c5), (''enabled'', PBool False)]),
         (''expert_interview'', [(''duration_seconds'', PInt s5),
          (''weight'', PFloat (Finite (3602879701896397 / 36028797018963968))),
          (''word_count_target'', PInt c5), (''enabled'', PBool False)])]"
  using allocation_in_range[OF allocation_returns[OF assms]]
  by (simp only: assms sum.inject)





text \<open>
  C6: in every plan the function returns, \<open>transitions\<close> is present and has no
  \<open>word_count_target\<close>, while \<open>intro\<close>, \<open>outro\<close>, \<open>tech_spotlight\<close>,
  \<open>listener_questions\<close>, \<open>deep_dive\<close>, \<open>expert_interview\<close> and every main-story slot have
  one; \<open>enabled\<close> is \<open>True\<close> on \<open>listener_questions\<close>, \<open>False\<close> on \<open>deep_dive\<close> and on
  \<open>expert_interview\<close>, and absent from every other section.
\<close>

theorem optional_fields:
  assumes "calculate_section_allocation config_globals d = Inr plan"
  shows "field plan ''transitions'' ''duration_seconds'' \<noteq> None
    \<and> field plan ''transitions'' ''word_count_target'' = None
    \<and> (\<forall>k \<in> set content_sections. field plan k ''word_count_target'' \<noteq> None)
    \<and> main_story_keys plan \<noteq> []
    \<and> (\<forall>k \<in> set (main_story_keys plan). field plan k ''word_count_target'' \<noteq> None)
    \<and> field plan ''listener_questions'' ''enabled'' = Some (PBool True)
    \<and> field plan ''deep_dive'' ''enabled'' = Some (PBool False)
    \<and> field plan ''expert_interview'' ''enabled'' = Some (PBool False)
    \<and> (\<forall>(k, sec) \<in> set plan.
          k \<noteq> ''listener_questions'' \<longrightarrow> k \<noteq> ''deep_dive'' \<longrightarrow> k \<noteq> ''expert_interview'' \<longrightarrow>
          map_of sec ''enabled'' = None)"
proof -
  note shape = allocation_shape[OF assms]
  note evals = num_main_stories_def story_range story_keys field_def main_story_keys_def
    content_sections_def
  consider "d = 15" | "d = 30" | "d \<noteq> 15" "d \<noteq> 30" by blast
  then show ?thesis
  proof cases
    case 1
    with shape show ?thesis by (elim exE, hypsubst) (simp add: evals)
  next
    case 2
    with shape show ?thesis by (elim exE, hypsubst) (simp add: evals)
  next
    case 3
    with shape show ?thesis by (elim exE, hypsubst) (simp add: evals)
  qed
qed


theorem optional_fields_witness:
  "\<exists>plan. calculate_section_allocation config_globals 30 = Inr plan
    \<and> (field plan ''transitions'' ''duration_seconds'' \<noteq> None
    \<and> field plan ''transitions'' ''word_count_target'' = None
    \<and> (\<forall>k \<in> set content_sections. field plan k ''word_count_target'' \<noteq> None)
    \<and> main_story_keys plan \<noteq> []
    \<and> (\<forall>k \<in> set (main_story_keys plan). field plan k ''word_count_target'' \<noteq> None)
    \<and> field plan ''listener_questions'' ''enabled'' = Some (PBool True)
    \<and> field plan ''deep_dive'' ''enabled'' = Some (PBool False)
    \<and> field plan ''expert_interview'' ''enabled'' = Some (PBool False)
    \<and> (\<forall>(k, sec) \<in> set plan.
          k \<noteq> ''listener_questions'' \<longrightarrow> k \<noteq> ''deep_dive'' \<longrightarrow> k \<noteq> ''expert_interview'' \<longrightarrow>
          map_of sec ''enabled'' = None))"
  by (rule returns_intro[OF allocation_30]) (rule optional_fields[OF allocation_30])



section \<open>Which durations return a plan\<close>

text \<open>
  C7, as stated, fails: at the integer \<open>2^1024\<close> the call raises \<open>OverflowError\<close> (int too
  large to convert to float) and returns no plan.
\<close>

theorem huge_duration_raises:
  "calculate_section_allocation config_globals (2 ^ 1024) = Inl OverflowError"
  by (rule allocation_overflow) (simp add: float_int_limit_def)

text \<open>
  C7, amended: for every integer \<open>d\<close> with \<open>|d| * 150 < 2^1024 - 2^970\<close> the call returns
  a plan; for every other integer it raises \<open>OverflowError\<close>; and every plan it returns is
  complete: its keys are \<open>intro\<close>, \<open>outro\<close>, \<open>tech_spotlight\<close>, \<open>listener_questions\<close>,
  \<open>transitions\<close>, the \<open>main_story_i\<close> keys, \<open>deep_dive\<close> and \<open>expert_interview\<close>.
\<close>

theorem returns_complete_plan_in_float_range:
  "(\<bar>d\<bar> * 150 < float_int_limit \<longrightarrow>
      (\<exists>plan. calculate_section_allocation config_globals d = Inr plan))
   \<and> (float_int_limit \<le> \<bar>d\<bar> * 150 \<longrightarrow>
      calculate_section_allocation config_globals d = Inl OverflowError)
   \<and> (\<forall>plan. calculate_section_allocation config_globals d = Inr plan \<longrightarrow>
      map fst plan = [''intro'', ''outro'', ''tech_spotlight'', ''listener_questions'', ''transitions'']
        @ map (\<lambda>i. ''main_story_'' @ str_int i) [1..num_main_stories d]
        @ [''deep_dive'', ''expert_interview''])"
proof (intro conjI impI allI)
  assume "\<bar>d\<bar> * 150 < float_int_limit"
  from allocation_in_range[OF this]
  show "\<exists>plan. calculate_section_allocation config_globals d = Inr plan" by blast
next
  assume "float_int_limit \<le> \<bar>d\<bar> * 150"
  then show "calculate_section_allocation config_globals d = Inl OverflowError"
    by (rule allocation_overflow)
next
  fix plan assume "calculate_section_allocation config_globals d = Inr plan"
  from allocation_shape[OF this]
  show "map fst plan = [''intro'', ''outro'', ''tech_spotlight'', ''listener_questions'', ''transitions'']
        @ map (\<lambda>i. ''main_story_'' @ str_int i) [1..num_main_stories d]
        @ [''deep_dive'', ''expert_interview'']"
    by (elim exE, hypsubst) (simp add: comp_def)
qed

theorem returns_complete_plan_in_float_range_witness:
  "(\<exists>plan. calculate_section_allocation config_globals 20 = Inr plan
      \<and> map fst plan = [''intro'', ''outro'', ''tech_spotlight'', ''listener_questions'',
          ''transitions'', ''main_story_1'', ''main_story_2'', ''main_story_3'', ''main_story_4'',
          ''deep_dive'', ''expert_interview''])
   \<and> calculate_section_allocation config_globals (- (2 ^ 1024)) = Inl OverflowError"
proof -
  note t = returns_complete_plan_in_float_range[of 20]
  have "\<bar>20\<bar> * 150 < float_int_limit" by (simp add: float_int_limit_def)
  with t obtain plan where p: "calculate_section_allocation config_globals 20 = Inr plan" by blast
  with t have "map fst plan = [''intro'', ''outro'', ''tech_spotlight'', ''listener_questions'', ''transitions'']
        @ map (\<lambda>i. ''main_story_'' @ str_int i) [1..num_main_stories 20]
        @ [''deep_dive'', ''expert_interview'']" by blast
  then have k: "map fst plan = [''intro'', ''outro'', ''tech_spotlight'', ''listener_questions'',
          ''transitions'', ''main_story_1'', ''main_story_2'', ''main_story_3'', ''main_story_4'',
          ''deep_dive'', ''expert_interview'']"
    by (simp add: num_main_stories_def story_range story_keys)
  have "float_int_limit \<le> \<bar>- (2 ^ 1024)\<bar> * 150" by (simp add: float_int_limit_def)
  with returns_complete_plan_in_float_range[of "- (2 ^ 1024)"]
  have "calculate_section_allocation config_globals (- (2 ^ 1024)) = Inl OverflowError" by blast
  then show ?thesis using p k by (intro conjI exI[of _ plan])
qed

section \<open>Calls and the module state\<close>

lemma global_subscript_reads:
  assumes "weights_bound s T"
  shows "global_subscript ''BASE_SECTION_WEIGHTS'' k s = pure_s (getitem T k) s"
  using assms by (simp add: weights_bound_def global_subscript_def split: option.splits)

lemma int_of_product_reads:
  assumes "weights_bound s T"
  shows "int_of_product n k s = pure_s (int_val (py_int (int_times_float n (getitem T k)))) s"
  unfolding int_of_product_def bind_s_def global_subscript_reads[OF assms]
  by (simp add: pure_s_def int_val_def py_int_def int_times_float_def bind_e_def split: sum.splits)

lemma weight_of_reads:
  assumes "weights_bound s T"
  shows "weight_of k s = pure_s (float_val (getitem T k)) s"
  unfolding weight_of_def bind_s_def global_subscript_reads[OF assms]
  by (simp add: pure_s_def float_val_def unit_s_def bind_e_def split: sum.splits)

lemma unit_s_reads: "unit_s v s = pure_s (Inr v) s"
  by (simp add: unit_s_def pure_s_def)

lemma eval_items_reads:
  assumes "list_all2 (\<lambda>(k, m) (k', p). k = k' \<and> m s = pure_s p s) items pitems"
  shows "eval_items items s = pure_s (seq_e pitems) s"
  using assms
proof (induction items pitems rule: list_all2_induct)
  case Nil
  then show ?case by (simp add: unit_s_def pure_s_def)
next
  case (Cons x xs y ys)
  obtain k m where x: "x = (k, m)" by (cases x)
  obtain k' p where y: "y = (k', p)" by (cases y)
  from Cons(1) x y have kk: "k' = k" and m: "m s = pure_s p s" by simp_all
  show ?case unfolding x y kk
    by (simp add: bind_s_def m Cons.IH unit_s_def pure_s_def bind_e_def split: sum.splits)
qed

lemma dict_build_seq:
  "dict_build d pitems =
     bind_e (seq_e pitems) (\<lambda>kvs. Inr (foldl (\<lambda>d (k, v). setitem d k v) d kvs))"
proof (induction pitems arbitrary: d)
  case Nil
  then show ?case by (simp add: bind_e_def)
next
  case (Cons x xs)
  obtain k e where x: "x = (k, e)" by (cases x)
  show ?case unfolding x by (simp add: Cons.IH bind_e_def split: sum.splits)
qed

lemma dict_display_seq: "dict_display pitems = bind_e (seq_e pitems) (\<lambda>kvs. Inr (dict_of kvs))"
  by (simp add: dict_display_def dict_of_def dict_build_seq)

lemma new_section_run:
  assumes "list_all2 (\<lambda>(k, m) (k', p). k = k' \<and> m s = pure_s p s) items pitems"
  shows "new_section items s =
     (case dict_display pitems of
        Inl e \<Rightarrow> (Inl (Raised e), s)
      | Inr sec \<Rightarrow> (Inr (length (objects s)), s\<lparr>objects := objects s @ [ValueDict sec]\<rparr>))"
  unfolding new_section_def dict_display_seq bind_s_def eval_items_reads[OF assms]
  by (simp add: pure_s_def allocate_def bind_e_def split: sum.splits)

lemma weights_bound_alloc [simp]:
  "weights_bound s T \<Longrightarrow> weights_bound (s\<lparr>objects := objects s @ xs\<rparr>) T"
  by (simp add: weights_bound_def nth_append split: option.splits)

lemma content_section_run:
  assumes "weights_bound s T"
  shows "new_section [
          (''duration_seconds'', int_of_product n1 k),
          (''weight'', weight_of k),
          (''word_count_target'', int_of_product n2 k)] s =
     (case dict_display [
          (''duration_seconds'', int_val (py_int (int_times_float n1 (getitem T k)))),
          (''weight'', float_val (getitem T k)),
          (''word_count_target'', int_val (py_int (int_times_float n2 (getitem T k))))] of
        Inl e \<Rightarrow> (Inl (Raised e), s)
      | Inr sec \<Rightarrow> (Inr (length (objects s)), s\<lparr>objects := objects s @ [ValueDict sec]\<rparr>))"
  by (rule new_section_run)
     (simp add: int_of_product_reads[OF assms] weight_of_reads[OF assms])

lemma flagged_section_run:
  assumes "weights_bound s T"
  shows "new_section [
          (''duration_seconds'', int_of_product n1 k),
          (''weight'', weight_of k),
          (''word_count_target'', int_of_product n2 k),
          (''enabled'', unit_s (PBool b))] s =
     (case dict_display [
          (''duration_seconds'', int_val (py_int (int_times_float n1 (getitem T k)))),
          (''weight'', float_val (getitem T k)),
          (''word_count_target'', int_val (py_int (int_times_float n2 (getitem T k)))),
          (''enabled'', bool_val b)] of
        Inl e \<Rightarrow> (Inl (Raised e), s)
      | Inr sec \<Rightarrow> (Inr (length (objects s)), s\<lparr>objects := objects s @ [ValueDict sec]\<rparr>))"
  by (rule new_section_run)
     (simp add: int_of_product_reads[OF assms] weight_of_reads[OF assms] unit_s_reads bool_val_def)

lemma plain_section_run:
  assumes "weights_bound s T"
  shows "new_section [
          (''duration_seconds'', int_of_product n1 k),
          (''weight'', weight_of k)] s =
     (case dict_display [
          (''duration_seconds'', int_val (py_int (int_times_float n1 (getitem T k)))),
          (''weight'', float_val (getitem T k))] of
        Inl e \<Rightarrow> (Inl (Raised e), s)
      | Inr sec \<Rightarrow> (Inr (length (objects s)), s\<lparr>objects := objects s @ [ValueDict sec]\<rparr>))"
  by (rule new_section_run)
     (simp add: int_of_product_reads[OF assms] weight_of_reads[OF assms])

lemma story_section_run:
  "new_section [
      (''duration_seconds'', unit_s (PInt a)),
      (''weight'', unit_s (PFloat w)),
      (''word_count_target'', unit_s (PInt c))] s =
   (Inr (length (objects s)), s\<lparr>objects := objects s @ [ValueDict [
      (''duration_seconds'', PInt a), (''weight'', PFloat w), (''word_count_target'', PInt c)]]\<rparr>)"
  by (simp add: new_section_def bind_s_def unit_s_def allocate_def dict_of_def setitem_def)

lemma outer_display:
  "dict_display [(''intro'', D1), (''outro'', D2), (''tech_spotlight'', D3),
       (''listener_questions'', D4), (''transitions'', D5)] =
   bind_e D1 (\<lambda>v1. bind_e D2 (\<lambda>v2. bind_e D3 (\<lambda>v3. bind_e D4 (\<lambda>v4. bind_e D5 (\<lambda>v5.
     Inr [(''intro'', v1), (''outro'', v2), (''tech_spotlight'', v3),
       (''listener_questions'', v4), (''transitions'', v5)])))))"
  by (simp add: dict_display_def setitem_def bind_e_def split: sum.splits)

lemma float_over_int_Inl: "float_over_int (Inl e) n = Inl e"
  by (simp add: float_over_int_def bind_e_simps)

lemmas exec_simps = exec_calculate_section_allocation_def calculate_section_allocation_def Let_def
  new_sections_def unit_s_def allocate_def bind_s_def pure_s_def
  story_section_run outer_display bind_e_simps float_over_int_Inl
  store_subscript_def dict_of_def setitem_def story_range story_keys
  nth_append list_update_append extends_def outcome_def plan_at_def

lemma exec_refines:
  assumes "weights_bound s T"
  shows "case exec_calculate_section_allocation d s of (r, s') \<Rightarrow>
     extends s s' \<and> weights_bound s' T
     \<and> outcome s' r = Some (calculate_section_allocation \<lparr>BASE_SECTION_WEIGHTS = T\<rparr> d)"
proof -
  note runs = content_section_run[where T = T] flagged_section_run[where T = T]
    plain_section_run[where T = T] global_subscript_reads[where T = T]
  consider "d = 15" | "d = 30" | "d \<noteq> 15" "d \<noteq> 30" by blast
  then show ?thesis
  proof cases
    case 1
    with assms show ?thesis by (simp add: exec_simps runs split: sum.splits)
  next
    case 2
    with assms show ?thesis by (simp add: exec_simps runs split: sum.splits)
  next
    case 3
    with assms show ?thesis by (simp add: exec_simps runs split: sum.splits)
  qed
qed

lemma extends_refl: "extends s s"
  by (simp add: extends_def)

lemma extends_trans:
  assumes "extends s s1" "extends s1 s2"
  shows "extends s s2"
proof -
  have n: "length (objects s) \<le> length (objects s1)"
    and t1: "take (length (objects s)) (objects s1) = objects s"
    and v1: "module_vars s1 = module_vars s"
    using assms(1) by (simp_all add: extends_def)
  have m: "length (objects s1) \<le> length (objects s2)"
    and t2: "take (length (objects s1)) (objects s2) = objects s1"
    and v2: "module_vars s2 = module_vars s1"
    using assms(2) by (simp_all add: extends_def)
  have "min (length (objects s)) (length (objects s1)) = length (objects s)"
    using n by simp
  then have "take (length (objects s)) (take (length (objects s1)) (objects s2))
      = take (length (objects s)) (objects s2)"
    by (simp only: take_take)
  then have "take (length (objects s)) (objects s2) = objects s"
    by (simp only: t2 t1)
  then show ?thesis using n m v1 v2 by (simp add: extends_def)
qed

lemma those_map_cong:
  assumes "those (map f xs) = Some ys" "\<And>x. x \<in> set xs \<Longrightarrow> f x \<noteq> None \<Longrightarrow> g x = f x"
  shows "those (map g xs) = Some ys"
  using assms
proof (induction xs arbitrary: ys)
  case Nil
  then show ?case by simp
next
  case (Cons x xs)
  from Cons.prems(1) obtain y zs where y: "f x = Some y" and zs: "those (map f xs) = Some zs"
    and ys: "ys = y # zs"
    by (auto split: option.splits)
  have "g x = Some y" using Cons.prems(2)[of x] y by simp
  moreover have "those (map g xs) = Some zs"
    using zs Cons.prems(2) by (intro Cons.IH) auto
  ultimately show ?case using ys by simp
qed

lemma plan_at_stable:
  assumes "length h \<le> length h'" "take (length h) h' = h" "plan_at h a = Some p"
  shows "plan_at h' a = Some p"
proof -
  have nth: "h' ! b = h ! b" if "b < length h" for b
    using that assms(2) by (metis nth_take)
  from assms(3) have a: "a < length h" by (simp add: plan_at_def split: if_splits)
  then obtain refs where r: "h ! a = RefDict refs"
    using assms(3) by (auto simp add: plan_at_def split: pyobj.splits)
  let ?f = "\<lambda>h. \<lambda>(k, b). if b < length h then
      (case h ! b of ValueDict sec \<Rightarrow> Some (k, sec) | FloatDict d \<Rightarrow> None | RefDict d \<Rightarrow> None)
    else None"
  have t: "those (map (?f h) refs) = Some p" using assms(3) a r by (simp add: plan_at_def)
  have "those (map (?f h') refs) = Some p"
  proof (rule those_map_cong[OF t])
    fix x assume "x \<in> set refs" and ne: "?f h x \<noteq> None"
    obtain k b where x: "x = (k, b)" by (cases x)
    from ne x have b: "b < length h" by (simp split: if_splits)
    then have "b < length h'" using assms(1) by simp
    then show "?f h' x = ?f h x" using b nth[OF b] x by simp
  qed
  then show ?thesis using a r assms(1) nth[OF a] by (simp add: plan_at_def)
qed

lemma outcome_stable:
  assumes "extends s s'" "outcome s r = Some v"
  shows "outcome s' r = Some v"
proof (cases r)
  case (Inl e)
  then show ?thesis using assms(2) by (simp add: outcome_def split: store_error.splits)
next
  case (Inr a)
  with assms(2) obtain p where p: "plan_at (objects s) a = Some p" and v: "v = Inr p"
    by (auto simp add: outcome_def)
  from assms(1) have "plan_at (objects s') a = Some p"
    by (intro plan_at_stable[OF _ _ p]) (simp_all add: extends_def)
  then show ?thesis using Inr v by (simp add: outcome_def)
qed

lemma exec_calls_refines:
  assumes "weights_bound s T"
  shows "extends s (snd (exec_calls ds s))
     \<and> weights_bound (snd (exec_calls ds s)) T
     \<and> map (outcome (snd (exec_calls ds s))) (fst (exec_calls ds s))
         = map (\<lambda>d. Some (calculate_section_allocation \<lparr>BASE_SECTION_WEIGHTS = T\<rparr> d)) ds"
  using assms
proof (induction ds arbitrary: s)
  case Nil
  then show ?case by (simp add: extends_refl)
next
  case (Cons d ds)
  obtain r s1 where e: "exec_calculate_section_allocation d s = (r, s1)"
    by (cases "exec_calculate_section_allocation d s")
  from exec_refines[OF Cons.prems, of d] e
  have x1: "extends s s1" and w1: "weights_bound s1 T"
    and o1: "outcome s1 r = Some (calculate_section_allocation \<lparr>BASE_SECTION_WEIGHTS = T\<rparr> d)"
    by simp_all
  obtain rs s2 where c: "exec_calls ds s1 = (rs, s2)" by (cases "exec_calls ds s1")
  from Cons.IH[OF w1] c
  have x2: "extends s1 s2" and w2: "weights_bound s2 T"
    and o2: "map (outcome s2) rs
         = map (\<lambda>d. Some (calculate_section_allocation \<lparr>BASE_SECTION_WEIGHTS = T\<rparr> d)) ds"
    by simp_all
  have "outcome s2 r = Some (calculate_section_allocation \<lparr>BASE_SECTION_WEIGHTS = T\<rparr> d)"
    using x2 o1 by (rule outcome_stable)
  then show ?case using e c extends_trans[OF x1 x2] w2 o2 by simp
qed

text \<open>
  The frame condition \<open>extends\<close> excludes writes to objects that exist already: an
  assignment \<open>d[k] = v\<close> that changes the dictionary at an existing address leads to a
  state that does not extend the one before.
\<close>

lemma store_subscript_not_extends:
  assumes "a < length (objects s)" "objects s ! a = RefDict d" "setitem d k b \<noteq> d"
  shows "\<not> extends s (snd (store_subscript a k b s))"
proof
  assume e: "extends s (snd (store_subscript a k b s))"
  have o: "objects (snd (store_subscript a k b s)) = (objects s)[a := RefDict (setitem d k b)]"
    using assms(1,2) by (simp add: store_subscript_def)
  from e have "take (length (objects s)) ((objects s)[a := RefDict (setitem d k b)]) = objects s"
    by (simp add: extends_def o)
  then have "(objects s)[a := RefDict (setitem d k b)] = objects s" by simp
  then have "(objects s)[a := RefDict (setitem d k b)] ! a = objects s ! a" by simp
  then show False using assms by simp
qed

text \<open>
  C8: take any module state in which \<open>BASE_SECTION_WEIGHTS\<close> is bound to a dict holding a
  table \<open>T\<close>, whatever other globals and objects the state has, and any sequence of calls.
  The calls change no global binding and no object that existed before (the table
  included): they only create objects. The result of each call, read in the final state,
  is the value of the function at \<open>T\<close> and at that call's duration, so it depends on
  nothing else in the state, and two calls with the same duration give the same result
  wherever they stand in the sequence.
\<close>

theorem calls_only_create_objects_and_agree:
  assumes "weights_bound s T"
  shows "extends s (snd (exec_calls ds s))
     \<and> weights_bound (snd (exec_calls ds s)) T
     \<and> map (outcome (snd (exec_calls ds s))) (fst (exec_calls ds s))
         = map (\<lambda>d. Some (calculate_section_allocation \<lparr>BASE_SECTION_WEIGHTS = T\<rparr> d)) ds
     \<and> (\<forall>i < length ds. \<forall>j < length ds. ds ! i = ds ! j \<longrightarrow>
          outcome (snd (exec_calls ds s)) (fst (exec_calls ds s) ! i)
            = outcome (snd (exec_calls ds s)) (fst (exec_calls ds s) ! j))"
proof -
  note r = exec_calls_refines[OF assms, of ds]
  let ?out = "map (outcome (snd (exec_calls ds s))) (fst (exec_calls ds s))"
  from r have m: "?out
      = map (\<lambda>d. Some (calculate_section_allocation \<lparr>BASE_SECTION_WEIGHTS = T\<rparr> d)) ds"
    by simp
  then have "length ?out = length ds" by simp
  then have l: "length (fst (exec_calls ds s)) = length ds" by simp
  have "outcome (snd (exec_calls ds s)) (fst (exec_calls ds s) ! i)
      = Some (calculate_section_allocation \<lparr>BASE_SECTION_WEIGHTS = T\<rparr> (ds ! i))"
    if "i < length ds" for i
  proof -
    have "?out ! i = outcome (snd (exec_calls ds s)) (fst (exec_calls ds s) ! i)"
      using that l by simp
    moreover have "map (\<lambda>d. Some (calculate_section_allocation \<lparr>BASE_SECTION_WEIGHTS = T\<rparr> d)) ds ! i
        = Some (calculate_section_allocation \<lparr>BASE_SECTION_WEIGHTS = T\<rparr> (ds ! i))"
      using that by simp
    ultimately show ?thesis using m by simp
  qed
  then have "\<forall>i < length ds. \<forall>j < length ds. ds ! i = ds ! j \<longrightarrow>
          outcome (snd (exec_calls ds s)) (fst (exec_calls ds s) ! i)
            = outcome (snd (exec_calls ds s)) (fst (exec_calls ds s) ! j)"
    by simp
  then show ?thesis using r by blast
qed

theorem calls_only_create_objects_and_agree_witness:
  "extends config_state (snd (exec_calls [30, 15, 30] config_state))
   \<and> map (outcome (snd (exec_calls [30, 15, 30] config_state)))
         (fst (exec_calls [30, 15, 30] config_state))
       = [Some (calculate_section_allocation config_globals 30),
          Some (calculate_section_allocation config_globals 15),
          Some (calculate_section_allocation config_globals 30)]"
proof -
  have w: "weights_bound config_state (BASE_SECTION_WEIGHTS config_globals)"
    by (simp add: weights_bound_def config_state_def)
  have g: "\<lparr>BASE_SECTION_WEIGHTS = BASE_SECTION_WEIGHTS config_globals\<rparr> = config_globals"
    by simp
  note t = calls_only_create_objects_and_agree[OF w, of "[30, 15, 30]"]
  from t have a: "extends config_state (snd (exec_calls [30, 15, 30] config_state))" by blast
  from t have "map (outcome (snd (exec_calls [30, 15, 30] config_state)))
         (fst (exec_calls [30, 15, 30] config_state))
       = map (\<lambda>d. Some (calculate_section_allocation
           \<lparr>BASE_SECTION_WEIGHTS = BASE_SECTION_WEIGHTS config_globals\<rparr> d)) [30, 15, 30]"
    by blast
  then have b: "map (outcome (snd (exec_calls [30, 15, 30] config_state)))
         (fst (exec_calls [30, 15, 30] config_state))
       = [Some (calculate_section_allocation config_globals 30),
          Some (calculate_section_allocation config_globals 15),
          Some (calculate_section_allocation config_globals 30)]"
    by (simp only: g list.map)
  from a b show ?thesis by (rule conjI)
qed

end
